theory Spec2Isabelle
  imports Main "HOL-Library.Char_ord" "HOL-Library.List_Lexorder"
begin

section \<open>Huobi spot REST client: signature construction and request dispatch\<close>

text \<open>
  A shallow embedding of \<^verbatim>\<open>HuobiSpotRestAPI.request\<close> and
  \<^verbatim>\<open>HuobiSpotRestAPI.generate_signature\<close> from
  \<^verbatim>\<open>alpha/platforms/huobi_spot_api.py\<close>.

  Python \<^verbatim>\<open>str\<close> values are modelled as \<^typ>\<open>string\<close>, each character read as
  a code point below 256; \<^verbatim>\<open>bytes\<close> values are modelled as \<^typ>\<open>string\<close> too, each
  character read as one byte. Strings are compared as Python compares them, code point
  by code point, which is the lexicographic order on \<^typ>\<open>char list\<close>.
\<close>

subsection \<open>Python values\<close>

type_synonym pystr = string
type_synonym bytes = string

text \<open>Values stored in query and header mappings.\<close>

datatype pyval = VNone | VStr pystr | VInt int

text \<open>Objects that come back from the transport or from the JSON decoder.\<close>

datatype pyobj =
    PNone
  | PBool bool
  | PInt int
  | PStr pystr
  | PList "pyobj list"
  | PDict "(pystr \<times> pyobj) list"
  | PExc pystr

datatype exn = AttributeError | TypeError | ValueError | JSONDecodeError

text \<open>Truth value of an object, as tested by \<^verbatim>\<open>if error:\<close>.\<close>

fun truthy :: "pyobj \<Rightarrow> bool" where
  "truthy PNone = False"
| "truthy (PBool b) = b"
| "truthy (PInt i) = (i \<noteq> 0)"
| "truthy (PStr s) = (s \<noteq> [])"
| "truthy (PList xs) = (xs \<noteq> [])"
| "truthy (PDict kvs) = (kvs \<noteq> [])"
| "truthy (PExc m) = True"

text \<open>\<^verbatim>\<open>isinstance(x, dict)\<close>.\<close>

fun is_dict :: "pyobj \<Rightarrow> bool" where
  "is_dict (PDict d) = True"
| "is_dict x = False"

subsection \<open>Dictionaries\<close>

text \<open>
  A Python \<^verbatim>\<open>dict\<close> keeps its entries in insertion order and its keys unique. It is
  an association list; \<open>dict_set\<close> is \<^verbatim>\<open>d[k] = v\<close>: an existing key keeps its
  position and takes the new value, a new key goes to the end.
\<close>

type_synonym dict = "(pystr \<times> pyval) list"

fun dict_set :: "dict \<Rightarrow> pystr \<Rightarrow> pyval \<Rightarrow> dict" where
  "dict_set [] k v = [(k, v)]"
| "dict_set ((k', v') # d) k v = (if k' = k then (k, v) # d else (k', v') # dict_set d k v)"

text \<open>\<^verbatim>\<open>d.update(other)\<close>: the entries of \<open>other\<close> are stored one by one, in order.\<close>

fun dict_update :: "dict \<Rightarrow> dict \<Rightarrow> dict" where
  "dict_update d [] = d"
| "dict_update d ((k, v) # other) = dict_update (dict_set d k v) other"

definition dict_keys :: "dict \<Rightarrow> pystr list" where
  "dict_keys d = map fst d"

definition dict_get :: "dict \<Rightarrow> pystr \<Rightarrow> pyval option" where
  "dict_get d k = map_of d k"

definition dict_del :: "dict \<Rightarrow> pystr \<Rightarrow> dict" where
  "dict_del d k = filter (\<lambda>kv. fst kv \<noteq> k) d"

subsection \<open>String operations of the Python library\<close>

text \<open>\<^verbatim>\<open>s.startswith(p)\<close>.\<close>

definition startswith :: "pystr \<Rightarrow> pystr \<Rightarrow> bool" where
  "startswith s p = (take (length p) s = p)"

text \<open>\<^verbatim>\<open>s.split(c)\<close> for a one-character separator: one more piece than separators.\<close>

fun split_on :: "char \<Rightarrow> pystr \<Rightarrow> pystr list" where
  "split_on c [] = [[]]"
| "split_on c (x # xs) =
     (if x = c then [] # split_on c xs
      else (case split_on c xs of
              [] \<Rightarrow> [[x]]
            | p # ps \<Rightarrow> (x # p) # ps))"

text \<open>\<^verbatim>\<open>sep.join(parts)\<close>.\<close>

fun join :: "pystr \<Rightarrow> pystr list \<Rightarrow> pystr" where
  "join sep [] = []"
| "join sep [p] = p"
| "join sep (p # q # ps) = p @ sep @ join sep (q # ps)"

text \<open>
  \<^verbatim>\<open>s.lower()\<close> on code points below 256: the letters A to Z and the upper-case
  letters of Latin-1 (192 to 222 except the multiplication sign 215) move up by 32.
\<close>

definition lower_char :: "char \<Rightarrow> char" where
  "lower_char c =
     (let n = (of_char c :: nat)
      in if (65 \<le> n \<and> n \<le> 90) \<or> (192 \<le> n \<and> n \<le> 222 \<and> n \<noteq> 215)
         then char_of (n + 32) else c)"

definition lower :: "pystr \<Rightarrow> pystr" where
  "lower s = map lower_char s"

text \<open>
  \<^verbatim>\<open>s.upper()\<close> on ASCII letters; used only to state what upper-casing a method
  name would give.
\<close>

definition upper_char :: "char \<Rightarrow> char" where
  "upper_char c =
     (let n = (of_char c :: nat)
      in if 97 \<le> n \<and> n \<le> 122 then char_of (n - 32) else c)"

definition upper :: "pystr \<Rightarrow> pystr" where
  "upper s = map upper_char s"

text \<open>\<^verbatim>\<open>s.encode("utf8")\<close> for code points below 256: one byte below 128, two above.\<close>

definition utf8_char :: "char \<Rightarrow> bytes" where
  "utf8_char c =
     (let n = (of_char c :: nat)
      in if n < 128 then [c] else [char_of (192 + n div 64), char_of (128 + n mod 64)])"

definition utf8 :: "pystr \<Rightarrow> bytes" where
  "utf8 s = concat (map utf8_char s)"

text \<open>Decimal digits; \<^verbatim>\<open>str(i)\<close> for an integer.\<close>

definition digit :: "nat \<Rightarrow> char" where
  "digit n = char_of (48 + n mod 10)"

function dec :: "nat \<Rightarrow> pystr" where
  "dec n = (if n < 10 then [digit n] else dec (n div 10) @ [digit n])"
  by pat_completeness auto
termination
  by (relation "measure id") auto

declare dec.simps [simp del]

definition str_int :: "int \<Rightarrow> pystr" where
  "str_int i = (if i < 0 then CHR ''-'' # dec (nat (- i)) else dec (nat i))"

text \<open>\<^verbatim>\<open>str(v)\<close>, as \<^verbatim>\<open>urlencode\<close> applies it to every value.\<close>

fun str_of :: "pyval \<Rightarrow> pystr" where
  "str_of VNone = ''None''"
| "str_of (VStr s) = s"
| "str_of (VInt i) = str_int i"

subsection \<open>\<^verbatim>\<open>urllib.parse.urlencode\<close>\<close>

text \<open>
  \<^verbatim>\<open>urlencode\<close> quotes keys and values with \<^verbatim>\<open>quote_plus\<close> and no extra safe
  characters: the string is encoded to UTF-8; letters, digits and \<^verbatim>\<open>_.-~\<close> stay, a
  space becomes \<^verbatim>\<open>+\<close>, every other byte becomes \<^verbatim>\<open>%XX\<close> in upper-case hexadecimal.
\<close>

definition always_safe :: "char \<Rightarrow> bool" where
  "always_safe c =
     (let n = (of_char c :: nat)
      in (65 \<le> n \<and> n \<le> 90) \<or> (97 \<le> n \<and> n \<le> 122) \<or> (48 \<le> n \<and> n \<le> 57)
         \<or> c = CHR ''_'' \<or> c = CHR ''.'' \<or> c = CHR ''-'' \<or> c = CHR ''~'')"

definition hex_digit :: "nat \<Rightarrow> char" where
  "hex_digit n = (if n < 10 then char_of (48 + n) else char_of (55 + n))"

definition quote_byte :: "char \<Rightarrow> pystr" where
  "quote_byte c =
     (if always_safe c then [c]
      else if c = CHR '' '' then ''+''
      else [CHR ''%'', hex_digit ((of_char c :: nat) div 16), hex_digit ((of_char c :: nat) mod 16)])"

definition quote_plus :: "pystr \<Rightarrow> pystr" where
  "quote_plus s = concat (map quote_byte (utf8 s))"

definition urlencode :: "dict \<Rightarrow> pystr" where
  "urlencode query =
     join ''&'' (map (\<lambda>(k, v). quote_plus k @ ''='' @ quote_plus (str_of v)) query)"

subsection \<open>\<^verbatim>\<open>base64.b64encode\<close>\<close>

definition b64_alphabet :: pystr where
  "b64_alphabet = ''ABCDEFGHIJKLMNOPQRSTUVWXYZabcdefghijklmnopqrstuvwxyz0123456789+/''"

definition b64_char :: "nat \<Rightarrow> char" where
  "b64_char n = b64_alphabet ! (n mod 64)"

fun b64encode :: "bytes \<Rightarrow> pystr" where
  "b64encode [] = []"
| "b64encode [a] =
     (let n = (of_char a :: nat) * 65536
      in [b64_char (n div 262144), b64_char (n div 4096), CHR ''='', CHR ''=''])"
| "b64encode [a, b] =
     (let n = (of_char a :: nat) * 65536 + of_char b * 256
      in [b64_char (n div 262144), b64_char (n div 4096), b64_char (n div 64), CHR ''=''])"
| "b64encode (a # b # c # rest) =
     (let n = (of_char a :: nat) * 65536 + of_char b * 256 + of_char c
      in [b64_char (n div 262144), b64_char (n div 4096), b64_char (n div 64), b64_char n]
         @ b64encode rest)"

declare b64encode.simps [simp del]

subsection \<open>The client and the library functions it calls\<close>

text \<open>
  The attributes set by \<^verbatim>\<open>__init__\<close>. A key that was not configured is
  \<^verbatim>\<open>None\<close>.
\<close>

record client =
  host :: pystr
  access_key :: pyval
  secret_key :: pyval

text \<open>
  Library functions whose code is outside the repository are parameters:
  \<^item> \<open>urlparse_hostname u\<close> is \<^verbatim>\<open>urllib.parse.urlparse(u).hostname\<close>, which may be
    \<^verbatim>\<open>None\<close> and may raise;
  \<^item> \<open>urljoin b u\<close> is \<^verbatim>\<open>urllib.parse.urljoin(b, u)\<close>;
  \<^item> \<open>hmac_sha256 key msg\<close> is
    \<^verbatim>\<open>hmac.new(key, msg, digestmod=hashlib.sha256).digest()\<close>;
  \<^item> \<open>json_loads x\<close> is \<^verbatim>\<open>json.loads(x)\<close>;
  \<^item> \<open>USER_AGENT\<close> is the constant of \<^verbatim>\<open>alpha.const\<close>.
\<close>

record pylib =
  urlparse_hostname :: "pystr \<Rightarrow> exn + pystr option"
  urljoin :: "pystr \<Rightarrow> pystr \<Rightarrow> exn + pystr"
  hmac_sha256 :: "bytes \<Rightarrow> bytes \<Rightarrow> bytes"
  json_loads :: "pyobj \<Rightarrow> exn + pyobj"
  USER_AGENT :: pystr

subsection \<open>\<^verbatim>\<open>generate_signature\<close>\<close>

definition is_absolute :: "pystr \<Rightarrow> bool" where
  "is_absolute u = (startswith u ''http://'' \<or> startswith u ''https://'')"

text \<open>
  The first statement of \<^verbatim>\<open>generate_signature\<close>: the host name to sign and the
  request path to sign. The attribute \<^verbatim>\<open>.hostname\<close> may be \<^verbatim>\<open>None\<close>, on which
  \<^verbatim>\<open>.lower()\<close> raises \<^verbatim>\<open>AttributeError\<close>.
\<close>

definition lower_hostname :: "pylib \<Rightarrow> pystr \<Rightarrow> exn + pystr" where
  "lower_hostname L u =
     (case urlparse_hostname L u of
        Inl e \<Rightarrow> Inl e
      | Inr None \<Rightarrow> Inl AttributeError
      | Inr (Some hn) \<Rightarrow> Inr (lower hn))"

definition strip_host :: "pystr \<Rightarrow> pystr" where
  "strip_host request_path = ''/'' @ join ''/'' (drop 3 (split_on CHR ''/'' request_path))"

definition resolve :: "pylib \<Rightarrow> client \<Rightarrow> pystr \<Rightarrow> exn + pystr \<times> pystr" where
  "resolve L self request_path =
     (if is_absolute request_path
      then (case lower_hostname L request_path of
              Inl e \<Rightarrow> Inl e
            | Inr host_url \<Rightarrow> Inr (host_url, strip_host request_path))
      else (case lower_hostname L (host self) of
              Inl e \<Rightarrow> Inl e
            | Inr host_url \<Rightarrow> Inr (host_url, request_path)))"

text \<open>The string that is signed: the four fields joined by newlines.\<close>

definition canonical_payload :: "pystr \<Rightarrow> pystr \<Rightarrow> pystr \<Rightarrow> dict \<Rightarrow> pystr" where
  "canonical_payload method host_url request_path params =
     (let sorted_params = sort_key fst params;
          encode_params = urlencode sorted_params
      in join [CHR 10] [method, host_url, request_path, encode_params])"

text \<open>
  The secret key is encoded after the payload; on \<^verbatim>\<open>None\<close> the call
  \<^verbatim>\<open>self._secret_key.encode\<close> raises \<^verbatim>\<open>AttributeError\<close>, as it does on an integer.
\<close>

definition encode_key :: "pyval \<Rightarrow> exn + bytes" where
  "encode_key k = (case k of VStr s \<Rightarrow> Inr (utf8 s) | _ \<Rightarrow> Inl AttributeError)"

definition generate_signature ::
  "pylib \<Rightarrow> client \<Rightarrow> pystr \<Rightarrow> dict \<Rightarrow> pystr \<Rightarrow> exn + pystr" where
  "generate_signature L self method params request_path =
     (case resolve L self request_path of
        Inl e \<Rightarrow> Inl e
      | Inr (host_url, request_path') \<Rightarrow>
          (let payload = utf8 (canonical_payload method host_url request_path' params)
           in case encode_key (secret_key self) of
                Inl e \<Rightarrow> Inl e
              | Inr key \<Rightarrow>
                  (let digest = hmac_sha256 L key payload;
                       signature = b64encode digest
                   in Inr signature)))"

subsection \<open>The clock and the transport\<close>

text \<open>
  What \<^verbatim>\<open>datetime.datetime.utcnow()\<close> returns, and
  \<^verbatim>\<open>strftime("%Y-%m-%dT%H:%M:%S")\<close> on it: two digits for every field but the
  year, which the C library prints without padding.
\<close>

record datetime =
  year :: nat
  month :: nat
  day :: nat
  hour :: nat
  minute :: nat
  second :: nat
  microsecond :: nat

definition dec2 :: "nat \<Rightarrow> pystr" where
  "dec2 n = [digit (n div 10), digit n]"

definition strftime :: "datetime \<Rightarrow> pystr" where
  "strftime t =
     dec (year t) @ ''-'' @ dec2 (month t) @ ''-'' @ dec2 (day t) @ ''T''
     @ dec2 (hour t) @ '':'' @ dec2 (minute t) @ '':'' @ dec2 (second t)"

text \<open>
  One call of \<^verbatim>\<open>AsyncHttpRequests.fetch\<close>, with the arguments \<^verbatim>\<open>request\<close> gives
  it. \<open>fc_data\<close> is \<open>None\<close> when the keyword \<^verbatim>\<open>data\<close> is not passed. The mapping
  arguments are recorded with the contents they have at the time of the call.
\<close>

record fetch_call =
  fc_method :: pystr
  fc_url :: pystr
  fc_params :: "dict option"
  fc_data :: "pyobj option"
  fc_headers :: dict
  fc_timeout :: nat

text \<open>
  The world outside the process: the clock, and the transport, whose code
  (\<^verbatim>\<open>alpha.utils.request\<close>) is not part of the sources. It answers a call with the
  triple \<^verbatim>\<open>(code, success, error)\<close>.
\<close>

record world =
  utcnow :: datetime
  fetch :: "fetch_call \<Rightarrow> pyobj \<times> pyobj \<times> pyobj"

subsection \<open>The store of mapping objects\<close>

text \<open>
  \<^verbatim>\<open>request\<close> updates the mappings it is given in place, so mappings live in a
  store and are passed by address. Addresses below \<open>lim\<close> are allocated; a fresh
  mapping \<^verbatim>\<open>{}\<close> takes the address \<open>lim\<close>.
\<close>

type_synonym addr = nat

record heap =
  cells :: "addr \<Rightarrow> dict"
  lim :: addr

definition alloc :: "heap \<Rightarrow> heap \<times> addr" where
  "alloc h = (h\<lparr>cells := (cells h)(lim h := []), lim := Suc (lim h)\<rparr>, lim h)"

definition store :: "heap \<Rightarrow> addr \<Rightarrow> dict \<Rightarrow> heap" where
  "store h a d = h\<lparr>cells := (cells h)(a := d)\<rparr>"

text \<open>
  \<^verbatim>\<open>x if x else {}\<close> for an optional mapping argument: \<^verbatim>\<open>None\<close> and the empty
  mapping are both false, and a new empty mapping is made for them.
\<close>

definition or_fresh :: "heap \<Rightarrow> addr option \<Rightarrow> heap \<times> addr" where
  "or_fresh h x =
     (case x of
        None \<Rightarrow> alloc h
      | Some a \<Rightarrow> if cells h a = [] then alloc h else (h, a))"

subsection \<open>\<^verbatim>\<open>request\<close>\<close>

text \<open>
  What a call leaves behind: the store, the transport calls made, in order, and either
  the exception raised or the returned pair \<^verbatim>\<open>(success, error)\<close>.
\<close>

record outcome =
  heap_after :: heap
  transport :: "fetch_call list"
  returned :: "exn + pyobj \<times> pyobj"

text \<open>The first statement: the URL the call goes to.\<close>

definition resolve_url :: "pylib \<Rightarrow> client \<Rightarrow> pystr \<Rightarrow> exn + pystr" where
  "resolve_url L self uri =
     (if startswith uri ''http://'' \<or> startswith uri ''https://'' then Inr uri
      else urljoin L (host self) uri)"

text \<open>The fields \<^verbatim>\<open>params.update\<close> stores before signing.\<close>

definition auth_fields :: "client \<Rightarrow> pystr \<Rightarrow> dict" where
  "auth_fields self timestamp =
     [(''AccessKeyId'', access_key self),
      (''SignatureMethod'', VStr ''HmacSHA256''),
      (''SignatureVersion'', VStr ''2''),
      (''Timestamp'', VStr timestamp)]"

text \<open>
  The block under \<^verbatim>\<open>if auth:\<close>. It yields the store, the mapping \<^verbatim>\<open>params\<close>
  now names, and the exception if \<^verbatim>\<open>generate_signature\<close> raised one; the update
  with the four fields has then already happened.
\<close>

definition auth_block ::
  "pylib \<Rightarrow> world \<Rightarrow> client \<Rightarrow> heap \<Rightarrow> pystr \<Rightarrow> pystr \<Rightarrow> addr option
     \<Rightarrow> heap \<times> addr \<times> exn option" where
  "auth_block L W self h method uri params =
     (let timestamp = strftime (utcnow W);
          (h1, p) = or_fresh h params;
          h2 = store h1 p (dict_update (cells h1 p) (auth_fields self timestamp))
      in case generate_signature L self method (cells h2 p) uri of
           Inl e \<Rightarrow> (h2, p, Some e)
         | Inr signature \<Rightarrow>
             (store h2 p (dict_set (cells h2 p) ''Signature'' (VStr signature)), p, None))"

text \<open>The headers each branch stores, in the order of the assignments.\<close>

definition branch_headers :: "pylib \<Rightarrow> pystr \<Rightarrow> dict" where
  "branch_headers L method =
     (if method = ''GET''
      then [(''Content-type'', VStr ''application/x-www-form-urlencoded''),
            (''User-Agent'', VStr (USER_AGENT L))]
      else [(''Accept'', VStr ''application/json''),
            (''Content-type'', VStr ''application/json''),
            (''User-Agent'', VStr (USER_AGENT L))])"

text \<open>
  What follows the transport call. Only a \<^verbatim>\<open>dict\<close> is taken as it is; any other
  \<open>success\<close> goes through \<^verbatim>\<open>json.loads\<close>. \<^verbatim>\<open>result.get\<close> exists on a \<^verbatim>\<open>dict\<close>
  only.
\<close>

definition read_response :: "pylib \<Rightarrow> pyobj \<Rightarrow> pyobj \<Rightarrow> exn + pyobj \<times> pyobj" where
  "read_response L success error =
     (if truthy error then Inr (PNone, error)
      else (case (case success of PDict d \<Rightarrow> Inr success | _ \<Rightarrow> json_loads L success) of
              Inl e \<Rightarrow> Inl e
            | Inr result \<Rightarrow>
                (case result of
                   PDict d \<Rightarrow>
                     if map_of d ''status'' \<noteq> Some (PStr ''ok'') then Inr (PNone, result)
                     else Inr (result, PNone)
                 | _ \<Rightarrow> Inl AttributeError)))"

definition request ::
  "pylib \<Rightarrow> world \<Rightarrow> client \<Rightarrow> heap \<Rightarrow> pystr \<Rightarrow> pystr \<Rightarrow> addr option \<Rightarrow> pyobj
     \<Rightarrow> addr option \<Rightarrow> bool \<Rightarrow> outcome" where
  "request L W self h method uri params body headers auth =
     (case resolve_url L self uri of
        Inl e \<Rightarrow> \<lparr>heap_after = h, transport = [], returned = Inl e\<rparr>
      | Inr url \<Rightarrow>
          (let (h1, params1, raised) =
                 (if auth
                  then (let (h', p, r) = auth_block L W self h method uri params
                        in (h', Some p, r))
                  else (h, params, None))
           in case raised of
                Some e \<Rightarrow> \<lparr>heap_after = h1, transport = [], returned = Inl e\<rparr>
              | None \<Rightarrow>
                  (let (h2, headers1) = or_fresh h1 headers;
                       h3 = store h2 headers1
                              (dict_update (cells h2 headers1) (branch_headers L method));
                       call =
                         (if method = ''GET''
                          then \<lparr>fc_method = ''GET'', fc_url = url,
                                fc_params = map_option (cells h3) params1, fc_data = None,
                                fc_headers = cells h3 headers1, fc_timeout = 10\<rparr>
                          else \<lparr>fc_method = ''POST'', fc_url = url,
                                fc_params = map_option (cells h3) params1, fc_data = Some body,
                                fc_headers = cells h3 headers1, fc_timeout = 10\<rparr>);
                       (code, success, error) = fetch W call
                   in \<lparr>heap_after = h3, transport = [call],
                       returned = read_response L success error\<rparr>)))"

text \<open>
  The two calls of the branches, written as one: they differ in the method given to the
  transport and in whether \<^verbatim>\<open>data=body\<close> is passed.
\<close>

definition sent_call ::
  "pylib \<Rightarrow> heap \<Rightarrow> pystr \<Rightarrow> pystr \<Rightarrow> addr option \<Rightarrow> pyobj \<Rightarrow> addr
     \<Rightarrow> fetch_call" where
  "sent_call L h3 method url params1 body headers1 =
     \<lparr>fc_method = (if method = ''GET'' then ''GET'' else ''POST''), fc_url = url,
      fc_params = map_option (cells h3) params1,
      fc_data = (if method = ''GET'' then None else Some body),
      fc_headers = cells h3 headers1, fc_timeout = 10\<rparr>"

subsection \<open>The reading of the specification, for comparison\<close>

text \<open>
  The canonical payload as the specification words it: the method in upper case, the
  host name, the path and the encoded sorted query, joined by newlines.
\<close>

definition spec_payload :: "pystr \<Rightarrow> pystr \<Rightarrow> pystr \<Rightarrow> dict \<Rightarrow> pystr" where
  "spec_payload method host_url request_path params =
     join [CHR 10] [upper method, host_url, request_path, urlencode (sort_key fst params)]"

text \<open>
  The path-only component of an absolute URL as the specification words it: scheme and
  host stripped, the leading slash kept, and nothing of a query or a fragment.
\<close>

definition spec_path_only :: "pystr \<Rightarrow> pystr" where
  "spec_path_only u =
     (let rest = (if startswith u ''https://'' then drop 8 u else drop 7 u);
          after_host = dropWhile (\<lambda>c. c \<notin> set ''/?#'') rest
      in takeWhile (\<lambda>c. c \<notin> set ''?#'') after_host)"

subsection \<open>A sample library, client and world\<close>

text \<open>
  Concrete values on which the model is evaluated: the host name of a URL of the shape
  \<^verbatim>\<open>scheme://host[:port][/...]\<close>, the join of a base that has no path with an
  absolute path, a decoder that knows the empty object only, and a stand-in for the
  digest, which is a function of key and message and not the real HMAC.
\<close>

definition sample_hostname :: "pystr \<Rightarrow> exn + pystr option" where
  "sample_hostname u =
     (let rest = (if startswith u ''https://'' then drop 8 u
                  else if startswith u ''http://'' then drop 7 u else []);
          hn = takeWhile (\<lambda>c. c \<notin> set ''/?#:'') rest
      in Inr (if hn = [] then None else Some (lower hn)))"

definition sample_json_loads :: "pyobj \<Rightarrow> exn + pyobj" where
  "sample_json_loads x =
     (case x of
        PStr s \<Rightarrow> if s = ''{}'' then Inr (PDict []) else Inl JSONDecodeError
      | _ \<Rightarrow> Inl TypeError)"

definition sample_lib :: pylib where
  "sample_lib =
     \<lparr>urlparse_hostname = sample_hostname,
      urljoin = (\<lambda>b u. Inr (b @ u)),
      hmac_sha256 = (\<lambda>key msg. key @ msg),
      json_loads = sample_json_loads,
      USER_AGENT = ''AlphaQuant''\<rparr>"

definition sample_client :: client where
  "sample_client =
     \<lparr>host = ''https://api.huobi.pro'', access_key = VStr ''ak'', secret_key = VStr ''sk''\<rparr>"

definition sample_world :: world where
  "sample_world =
     \<lparr>utcnow = \<lparr>year = 2020, month = 9, day = 10, hour = 12, minute = 0, second = 5,
                 microsecond = 123456\<rparr>,
      fetch = (\<lambda>call. (PInt 200, PDict [(''status'', PStr ''ok'')], PNone))\<rparr>"

text \<open>A store with one allocated mapping, \<^verbatim>\<open>{"symbol": "btcusdt"}\<close>, at address 0.\<close>

definition sample_heap :: heap where
  "sample_heap =
     \<lparr>cells = (\<lambda>a. if a = 0 then [(''symbol'', VStr ''btcusdt'')] else []), lim = 1\<rparr>"

section \<open>Properties\<close>

subsection \<open>Dictionaries, splitting and joining\<close>

lemma dict_set_keys: "set (dict_keys (dict_set d k v)) = insert k (set (dict_keys d))"
proof (induction d)
  case Nil
  show ?case by (simp add: dict_keys_def)
next
  case (Cons a d)
  obtain k' v' where a: "a = (k', v')" by (cases a)
  from Cons show ?case
    unfolding dict_keys_def a by (simp add: insert_commute)
qed

lemma dict_get_set: "dict_get (dict_set d k v) k' = (if k' = k then Some v else dict_get d k')"
  by (induction d) (auto simp: dict_get_def)


lemma dict_del_set_fresh: "k \<notin> set (dict_keys d) \<Longrightarrow> dict_del (dict_set d k v) k = d"
  unfolding dict_keys_def dict_del_def by (induction d) auto

lemma split_on_nonempty: "split_on c s \<noteq> []"
  by (induction s) (simp_all split: list.splits)

lemma join_split_on: "join [c] (split_on c s) = s"
proof (induction s)
  case Nil
  then show ?case by simp
next
  case (Cons x xs)
  obtain p ps where sp: "split_on c xs = p # ps"
    using split_on_nonempty by (cases "split_on c xs") auto
  show ?case
  proof (cases "x = c")
    case True
    with Cons sp show ?thesis by simp
  next
    case False
    with Cons sp show ?thesis by (cases ps) simp_all
  qed
qed

lemma split_on_prefix: "c \<notin> set a \<Longrightarrow> split_on c (a @ c # b) = a # split_on c b"
  by (induction a) auto


subsection \<open>The signature does not depend on the insertion order\<close>



subsection \<open>Evaluation on concrete inputs\<close>

lemmas string_eval =
  startswith_def lower_def lower_char_def upper_def upper_char_def utf8_def utf8_char_def
  digit_def str_int_def urlencode_def quote_plus_def quote_byte_def always_safe_def
  hex_digit_def strip_host_def is_absolute_def char_of_eq_iff dec.simps dec2_def
  strftime_def

lemmas b64_eval = b64encode.simps b64_char_def b64_alphabet_def

lemmas sample_eval =
  sample_hostname_def sample_json_loads_def sample_lib_def sample_client_def
  sample_world_def sample_heap_def

lemmas signature_eval =
  generate_signature_def resolve_def lower_hostname_def canonical_payload_def encode_key_def
  sort_key_def

subsection \<open>What is signed\<close>

lemma generate_signature_resolved:
  assumes "resolve L self request_path = Inr (host_url, path)"
    and "secret_key self = VStr key"
  shows "generate_signature L self method params request_path
       = Inr (b64encode (hmac_sha256 L (utf8 key)
                (utf8 (canonical_payload method host_url path params))))"
  using assms by (simp add: generate_signature_def encode_key_def)

text \<open>
  Claim C1, as the code has it. When the host resolves and the secret key is a string,
  \<open>generate_signature\<close> returns the base64 encoding of the digest, keyed by the UTF-8
  bytes of the secret key, of the UTF-8 bytes of four fields joined by newlines: the
  method exactly as it was passed, the host name, the path and the encoded sorted query.
  The method is not put in upper case; the payload is the one of the specification when the
  caller passes the method in upper case already.
\<close>

theorem generate_signature_payload:
  assumes "resolve L self request_path = Inr (host_url, path)"
    and "secret_key self = VStr key"
  shows "generate_signature L self method params request_path
       = Inr (b64encode (hmac_sha256 L (utf8 key)
                (utf8 (join [CHR 10]
                   [method, host_url, path, urlencode (sort_key fst params)]))))
     \<and> (upper method = method \<longrightarrow>
          join [CHR 10] [method, host_url, path, urlencode (sort_key fst params)]
          = spec_payload method host_url path params)"
  using assms
  by (simp add: generate_signature_def encode_key_def canonical_payload_def spec_payload_def)

theorem generate_signature_payload_witness:
  "resolve sample_lib sample_client ''/v1/order/orders''
     = Inr (''api.huobi.pro'', ''/v1/order/orders'')
   \<and> secret_key sample_client = VStr ''sk''
   \<and> upper ''GET'' = ''GET''
   \<and> generate_signature sample_lib sample_client ''GET''
        [(''symbol'', VStr ''btcusdt''), (''Timestamp'', VStr ''2020-09-10T12:00:05'')]
        ''/v1/order/orders''
     = Inr (b64encode (hmac_sha256 sample_lib ''sk''
         (''GET'' @ [CHR 10] @ ''api.huobi.pro'' @ [CHR 10] @ ''/v1/order/orders'' @ [CHR 10]
          @ ''Timestamp=2020-09-10T12%3A00%3A05&symbol=btcusdt'')))
   \<and> spec_payload ''GET'' ''api.huobi.pro'' ''/v1/order/orders''
        [(''symbol'', VStr ''btcusdt''), (''Timestamp'', VStr ''2020-09-10T12:00:05'')]
     = ''GET'' @ [CHR 10] @ ''api.huobi.pro'' @ [CHR 10] @ ''/v1/order/orders'' @ [CHR 10]
          @ ''Timestamp=2020-09-10T12%3A00%3A05&symbol=btcusdt''"
proof -
  have r: "resolve sample_lib sample_client ''/v1/order/orders''
         = Inr (''api.huobi.pro'', ''/v1/order/orders'')"
    by (simp add: signature_eval string_eval sample_eval)
  have k: "secret_key sample_client = VStr ''sk''"
    by (simp add: sample_client_def)
  have u: "upper ''GET'' = ''GET''"
    by (simp add: string_eval)
  have e: "urlencode (sort_key fst
             [(''symbol'', VStr ''btcusdt''), (''Timestamp'', VStr ''2020-09-10T12:00:05'')])
         = ''Timestamp=2020-09-10T12%3A00%3A05&symbol=btcusdt''"
    by (simp add: sort_key_def string_eval)
  have s: "utf8 ''sk'' = ''sk''"
    by (simp add: string_eval)
  have p: "utf8 (''GET'' @ [CHR 10] @ ''api.huobi.pro'' @ [CHR 10] @ ''/v1/order/orders''
            @ [CHR 10] @ ''Timestamp=2020-09-10T12%3A00%3A05&symbol=btcusdt'')
     = ''GET'' @ [CHR 10] @ ''api.huobi.pro'' @ [CHR 10] @ ''/v1/order/orders'' @ [CHR 10]
          @ ''Timestamp=2020-09-10T12%3A00%3A05&symbol=btcusdt''"
    by (simp add: string_eval)
  show ?thesis
    using generate_signature_payload [OF r k, of "''GET''"
        "[(''symbol'', VStr ''btcusdt''), (''Timestamp'', VStr ''2020-09-10T12:00:05'')]"]
      r k u e s p
    by simp
qed

text \<open>
  Claim C1 as stated fails on a method that is not in upper case: for \<^verbatim>\<open>get\<close> the
  signed payload starts with \<^verbatim>\<open>get\<close>, the payload of the specification with
  \<^verbatim>\<open>GET\<close>, and the signature is not the one computed from the latter.
\<close>

theorem method_not_upper_cased_counterexample:
  "canonical_payload ''get'' ''api.huobi.pro'' ''/v1/order/orders'' []
     = ''get'' @ [CHR 10] @ ''api.huobi.pro'' @ [CHR 10] @ ''/v1/order/orders'' @ [CHR 10]
   \<and> spec_payload ''get'' ''api.huobi.pro'' ''/v1/order/orders'' []
     = ''GET'' @ [CHR 10] @ ''api.huobi.pro'' @ [CHR 10] @ ''/v1/order/orders'' @ [CHR 10]
   \<and> generate_signature sample_lib sample_client ''get'' [] ''/v1/order/orders''
     \<noteq> Inr (b64encode (hmac_sha256 sample_lib (utf8 ''sk'')
              (utf8 (spec_payload ''get'' ''api.huobi.pro'' ''/v1/order/orders'' []))))"
  by (simp add: spec_payload_def signature_eval string_eval sample_eval b64_eval)

subsection \<open>The signature is a function of its inputs\<close>

text \<open>
  Claim C8. \<open>generate_signature\<close> takes neither the clock nor the transport. Two
  invocations with the same method, parameters and request path, on clients with the same
  host and the same secret key, return the same result, whatever the access key; of the
  library only the host name parser and the digest matter.
\<close>

theorem signature_deterministic:
  assumes "host self = host self'" and "secret_key self = secret_key self'"
    and "urlparse_hostname L = urlparse_hostname L'" and "hmac_sha256 L = hmac_sha256 L'"
  shows "generate_signature L self method params request_path
       = generate_signature L' self' method params request_path"
proof -
  have r: "resolve L self request_path = resolve L' self' request_path"
    using assms(1,3) by (simp add: resolve_def lower_hostname_def)
  show ?thesis
    unfolding generate_signature_def r assms(2) assms(4) by (rule refl)
qed

theorem signature_deterministic_witness:
  "host sample_client = host (sample_client\<lparr>access_key := VNone\<rparr>)
   \<and> secret_key sample_client = secret_key (sample_client\<lparr>access_key := VNone\<rparr>)
   \<and> urlparse_hostname sample_lib = urlparse_hostname (sample_lib\<lparr>USER_AGENT := ''other''\<rparr>)
   \<and> hmac_sha256 sample_lib = hmac_sha256 (sample_lib\<lparr>USER_AGENT := ''other''\<rparr>)
   \<and> generate_signature sample_lib sample_client ''GET''
        [(''Timestamp'', VStr ''2020-09-10T12:00:05'')] ''/v1/order/orders''
     = generate_signature (sample_lib\<lparr>USER_AGENT := ''other''\<rparr>)
        (sample_client\<lparr>access_key := VNone\<rparr>) ''GET''
        [(''Timestamp'', VStr ''2020-09-10T12:00:05'')] ''/v1/order/orders''"
proof -
  have a: "host sample_client = host (sample_client\<lparr>access_key := VNone\<rparr>)"
    and b: "secret_key sample_client = secret_key (sample_client\<lparr>access_key := VNone\<rparr>)"
    and c: "urlparse_hostname sample_lib
          = urlparse_hostname (sample_lib\<lparr>USER_AGENT := ''other''\<rparr>)"
    and d: "hmac_sha256 sample_lib = hmac_sha256 (sample_lib\<lparr>USER_AGENT := ''other''\<rparr>)"
    by simp_all
  show ?thesis
    using signature_deterministic [OF a b c d] a b c d by simp
qed

subsection \<open>The store and the authenticated call\<close>

lemma or_fresh_contents:
  "cells (fst (or_fresh h x)) (snd (or_fresh h x)) = (case x of None \<Rightarrow> [] | Some a \<Rightarrow> cells h a)"
  by (cases x) (simp_all add: or_fresh_def alloc_def)


lemma auth_block_eq:
  "auth_block L W self h method uri params =
     (let h1 = fst (or_fresh h params); p = snd (or_fresh h params);
          pre = dict_update (case params of None \<Rightarrow> [] | Some a \<Rightarrow> cells h a)
                  (auth_fields self (strftime (utcnow W)))
      in case generate_signature L self method pre uri of
           Inl e \<Rightarrow> (store h1 p pre, p, Some e)
         | Inr sg \<Rightarrow> (store h1 p (dict_set pre ''Signature'' (VStr sg)), p, None))"
  by (simp add: auth_block_def Let_def split_beta or_fresh_contents store_def
      split: sum.splits)


lemma request_after_auth:
  assumes "resolve_url L self uri = Inr url"
    and "(h1, params1) =
           (if auth
            then (store (fst (or_fresh h params)) (snd (or_fresh h params))
                    (dict_set pre ''Signature'' (VStr sg)),
                  Some (snd (or_fresh h params)))
            else (h, params))"
    and "pre = dict_update (case params of None \<Rightarrow> [] | Some a \<Rightarrow> cells h a)
                 (auth_fields self (strftime (utcnow W)))"
    and "auth \<longrightarrow> generate_signature L self method pre uri = Inr sg"
    and "h2 = fst (or_fresh h1 headers)" and "headers1 = snd (or_fresh h1 headers)"
    and "h3 = store h2 headers1 (dict_update (cells h2 headers1) (branch_headers L method))"
    and "call = sent_call L h3 method url params1 body headers1"
  shows "request L W self h method uri params body headers auth =
     \<lparr>heap_after = h3, transport = [call],
      returned = read_response L (fst (snd (fetch W call))) (snd (snd (fetch W call)))\<rparr>"
proof (cases auth)
  case True
  with assms show ?thesis
    by (simp add: request_def auth_block_eq Let_def split_beta sent_call_def)
next
  case False
  with assms show ?thesis
    by (simp add: request_def Let_def split_beta sent_call_def)
qed



lemma params_cell_kept:
  assumes "\<forall>a. params = Some a \<longrightarrow> a < lim h \<and> headers \<noteq> Some a"
    and "\<forall>b. headers = Some b \<longrightarrow> b < lim h"
    and "pa = snd (or_fresh h params)"
    and "h1 = store (fst (or_fresh h params)) pa d"
    and "h2 = fst (or_fresh h1 headers)" and "headers1 = snd (or_fresh h1 headers)"
    and "h3 = store h2 headers1 d'"
  shows "cells h3 pa = d"
proof (cases params)
  case None
  with assms show ?thesis
    by (cases headers) (auto simp: or_fresh_def alloc_def store_def)
next
  case (Some a)
  with assms show ?thesis
    by (cases headers) (auto simp: or_fresh_def alloc_def store_def)
qed

lemma other_cell_kept:
  assumes "a' < lim h" and "a' \<noteq> pa" and "headers \<noteq> Some a'"
    and "pa = snd (or_fresh h params)"
    and "h1 = store (fst (or_fresh h params)) pa d"
    and "h2 = fst (or_fresh h1 headers)" and "headers1 = snd (or_fresh h1 headers)"
    and "h3 = store h2 headers1 d'"
  shows "cells h3 a' = cells h a'"
proof (cases params)
  case None
  with assms show ?thesis
    by (cases headers) (auto simp: or_fresh_def alloc_def store_def)
next
  case (Some a)
  with assms show ?thesis
    by (cases headers) (auto simp: or_fresh_def alloc_def store_def)
qed

lemma auth_fields_update:
  "dict_update d (auth_fields self ts) =
     dict_set (dict_set (dict_set (dict_set d ''AccessKeyId'' (access_key self))
       ''SignatureMethod'' (VStr ''HmacSHA256'')) ''SignatureVersion'' (VStr ''2''))
       ''Timestamp'' (VStr ts)"
  by (simp add: auth_fields_def)



lemma request_auth_sent:
  assumes "resolve_url L self uri = Inr url"
    and "p0 = (case params of None \<Rightarrow> [] | Some a \<Rightarrow> cells h a)"
    and "pre = dict_update p0 (auth_fields self (strftime (utcnow W)))"
    and "generate_signature L self method pre uri = Inr sg"
    and "final = dict_set pre ''Signature'' (VStr sg)"
    and "\<forall>a. params = Some a \<longrightarrow> a < lim h \<and> headers \<noteq> Some a"
    and "\<forall>b. headers = Some b \<longrightarrow> b < lim h"
  shows "map fc_params (transport (request L W self h method uri params body headers True))
           = [Some final]"
    and "cells (heap_after (request L W self h method uri params body headers True))
           (snd (or_fresh h params)) = final"
    and "a' < lim h \<Longrightarrow> a' \<noteq> snd (or_fresh h params) \<Longrightarrow> headers \<noteq> Some a' \<Longrightarrow>
         cells (heap_after (request L W self h method uri params body headers True)) a'
           = cells h a'"
    and "returned (request L W self h method uri params body headers True)
           = read_response L
               (fst (snd (fetch W (hd (transport
                  (request L W self h method uri params body headers True))))))
               (snd (snd (fetch W (hd (transport
                  (request L W self h method uri params body headers True))))))"
    and "map fc_method (transport (request L W self h method uri params body headers True))
           = [if method = ''GET'' then ''GET'' else ''POST'']"
proof -
  define pa where "pa = snd (or_fresh h params)"
  define h1 where "h1 = store (fst (or_fresh h params)) pa final"
  define h2 where "h2 = fst (or_fresh h1 headers)"
  define headers1 where "headers1 = snd (or_fresh h1 headers)"
  define h3 where
    "h3 = store h2 headers1 (dict_update (cells h2 headers1) (branch_headers L method))"
  define call where "call = sent_call L h3 method url (Some pa) body headers1"
  have "request L W self h method uri params body headers True =
     \<lparr>heap_after = h3, transport = [call],
      returned = read_response L (fst (snd (fetch W call))) (snd (snd (fetch W call)))\<rparr>"
  proof (rule request_after_auth [OF assms(1) _ _ _ h2_def headers1_def h3_def call_def])
    show "(h1, Some pa) =
           (if True
            then (store (fst (or_fresh h params)) (snd (or_fresh h params))
                    (dict_set pre ''Signature'' (VStr sg)),
                  Some (snd (or_fresh h params)))
            else (h, params))"
      unfolding h1_def pa_def assms(5) by (simp only: if_True)
    show "pre = dict_update (case params of None \<Rightarrow> [] | Some a \<Rightarrow> cells h a)
                 (auth_fields self (strftime (utcnow W)))"
      using assms(3) unfolding assms(2) .
    show "True \<longrightarrow> generate_signature L self method pre uri = Inr sg"
      using assms(4) by simp
  qed
  then have R: "heap_after (request L W self h method uri params body headers True) = h3"
    "transport (request L W self h method uri params body headers True) = [call]"
    "returned (request L W self h method uri params body headers True)
       = read_response L (fst (snd (fetch W call))) (snd (snd (fetch W call)))"
    by simp_all
  have kept: "cells h3 pa = final"
    by (rule params_cell_kept [OF assms(6,7) pa_def h1_def h2_def headers1_def h3_def])
  show "map fc_params (transport (request L W self h method uri params body headers True))
       = [Some final]"
    unfolding R by (simp add: call_def sent_call_def kept)
  show "cells (heap_after (request L W self h method uri params body headers True))
           (snd (or_fresh h params)) = final"
    unfolding R using kept by (simp add: pa_def)
  show "cells (heap_after (request L W self h method uri params body headers True)) a'
           = cells h a'"
    if "a' < lim h" and "a' \<noteq> snd (or_fresh h params)" and "headers \<noteq> Some a'"
    unfolding R
    by (rule other_cell_kept [OF that(1) _ that(3) pa_def h1_def h2_def headers1_def h3_def])
      (simp add: pa_def that(2))
  show "returned (request L W self h method uri params body headers True)
           = read_response L
               (fst (snd (fetch W (hd (transport
                  (request L W self h method uri params body headers True))))))
               (snd (snd (fetch W (hd (transport
                  (request L W self h method uri params body headers True))))))"
    unfolding R by simp
  show "map fc_method (transport (request L W self h method uri params body headers True))
           = [if method = ''GET'' then ''GET'' else ''POST'']"
    unfolding R by (simp add: call_def sent_call_def)
qed




subsection \<open>Raising paths, sample values, and the Signature entry\<close>

lemma request_auth_raised:
  assumes "resolve_url L self uri = Inr url"
    and "p0 = (case params of None \<Rightarrow> [] | Some a \<Rightarrow> cells h a)"
    and "pre = dict_update p0 (auth_fields self (strftime (utcnow W)))"
    and "generate_signature L self method pre uri = Inl e"
  shows "request L W self h method uri params body headers True =
     \<lparr>heap_after = store (fst (or_fresh h params)) (snd (or_fresh h params)) pre,
      transport = [], returned = Inl e\<rparr>"
  using assms(1) assms(4) unfolding assms(3) assms(2)
  by (simp add: request_def auth_block_eq Let_def)

lemma request_unresolved:
  assumes "resolve_url L self uri = Inl e"
  shows "request L W self h method uri params body headers auth =
     \<lparr>heap_after = h, transport = [], returned = Inl e\<rparr>"
  using assms by (simp add: request_def)

lemma no_secret_no_signature:
  assumes "secret_key self = VNone"
  shows "isl (generate_signature L self method params request_path)"
  using assms
  by (simp add: generate_signature_def encode_key_def Let_def split: sum.splits prod.splits)

lemma no_secret_attribute_error:
  assumes "secret_key self = VNone" and "resolve L self request_path = Inr x"
  shows "generate_signature L self method params request_path = Inl AttributeError"
  using assms
  by (simp add: generate_signature_def encode_key_def Let_def split: sum.splits prod.splits)

lemma sample_signature:
  assumes "host self = ''https://api.huobi.pro''" and "secret_key self = VStr key"
    and "\<not> is_absolute uri"
  shows "generate_signature sample_lib self method params uri
       = Inr (b64encode (utf8 key @ utf8 (canonical_payload method ''api.huobi.pro'' uri params)))"
proof -
  have "lower_hostname sample_lib ''https://api.huobi.pro'' = Inr ''api.huobi.pro''"
    by (simp add: lower_hostname_def sample_lib_def sample_hostname_def string_eval)
  then have "resolve sample_lib self uri = Inr (''api.huobi.pro'', uri)"
    using assms(1,3) by (simp add: resolve_def)
  then show ?thesis
    using assms(2) by (simp add: generate_signature_resolved sample_lib_def)
qed

lemma sample_resolve_url:
  assumes "host self = ''https://api.huobi.pro''" and "\<not> is_absolute uri"
  shows "resolve_url sample_lib self uri = Inr (''https://api.huobi.pro'' @ uri)"
  using assms by (simp add: resolve_url_def is_absolute_def sample_lib_def)

lemma sample_timestamp: "strftime (utcnow sample_world) = ''2020-09-10T12:00:05''"
  by (simp add: string_eval sample_eval)

lemma relative_uri: "\<not> is_absolute ''/v1/order/orders''"
  by (simp add: is_absolute_def startswith_def)


lemma sample_pre:
  "dict_update [] (auth_fields c (strftime (utcnow sample_world)))
     = [(''AccessKeyId'', access_key c), (''SignatureMethod'', VStr ''HmacSHA256''),
        (''SignatureVersion'', VStr ''2''), (''Timestamp'', VStr ''2020-09-10T12:00:05'')]"
  unfolding sample_timestamp by (simp add: auth_fields_def)



lemma auth_keys_fresh:
  assumes "''Signature'' \<notin> set (dict_keys p0)"
  shows "''Signature'' \<notin> set (dict_keys (dict_update p0 (auth_fields self ts)))"
  unfolding auth_fields_update dict_set_keys using assms by simp


text \<open>
  Claim C3, as the code has it. \<open>request\<close> stores the Signature entry after signing:
  when the mapping of the caller has no Signature key, the mapping that is signed has
  none; and when, besides, the headers mapping is not the very object passed as
  \<open>params\<close>, removing the Signature entry from the mapping that is sent and signing
  again gives the signature that was sent.
\<close>

theorem signature_stored_after_signing:
  assumes "resolve_url L self uri = Inr url"
    and "p0 = (case params of None \<Rightarrow> [] | Some a \<Rightarrow> cells h a)"
    and "pre = dict_update p0 (auth_fields self (strftime (utcnow W)))"
    and "generate_signature L self method pre uri = Inr sg"
    and "final = dict_set pre ''Signature'' (VStr sg)"
    and "\<forall>a. params = Some a \<longrightarrow> a < lim h \<and> headers \<noteq> Some a"
    and "\<forall>b. headers = Some b \<longrightarrow> b < lim h"
    and "''Signature'' \<notin> set (dict_keys p0)"
  shows "''Signature'' \<notin> set (dict_keys pre)
     \<and> map fc_params (transport (request L W self h method uri params body headers True))
         = [Some final]
     \<and> dict_get final ''Signature'' = Some (VStr sg)
     \<and> dict_del final ''Signature'' = pre
     \<and> generate_signature L self method (dict_del final ''Signature'') uri = Inr sg"
proof -
  have fresh: "''Signature'' \<notin> set (dict_keys pre)"
    unfolding assms(3) using assms(8) by (rule auth_keys_fresh)
  have sent: "map fc_params (transport (request L W self h method uri params body headers True))
         = [Some final]"
    by (rule request_auth_sent(1) [OF assms(1-7)])
  have del: "dict_del final ''Signature'' = pre"
    unfolding assms(5) using fresh by (rule dict_del_set_fresh)
  have get: "dict_get final ''Signature'' = Some (VStr sg)"
    unfolding assms(5) by (simp add: dict_get_set)
  show ?thesis
    using fresh sent get assms(4) unfolding del by simp
qed

theorem signature_stored_after_signing_witness:
  "resolve_url sample_lib sample_client ''/v1/order/orders''
     = Inr ''https://api.huobi.pro/v1/order/orders''
   \<and> ''Signature'' \<notin> set (dict_keys [])
   \<and> map fc_params (transport (request sample_lib sample_world sample_client sample_heap
          ''GET'' ''/v1/order/orders'' None PNone None True))
     = [Some [(''AccessKeyId'', VStr ''ak''), (''SignatureMethod'', VStr ''HmacSHA256''),
         (''SignatureVersion'', VStr ''2''), (''Timestamp'', VStr ''2020-09-10T12:00:05''),
         (''Signature'', VStr (b64encode (''sk'' @ utf8 (canonical_payload ''GET''
            ''api.huobi.pro'' ''/v1/order/orders''
            [(''AccessKeyId'', VStr ''ak''), (''SignatureMethod'', VStr ''HmacSHA256''),
             (''SignatureVersion'', VStr ''2''),
             (''Timestamp'', VStr ''2020-09-10T12:00:05'')]))))]]
   \<and> generate_signature sample_lib sample_client ''GET''
        (dict_del
          [(''AccessKeyId'', VStr ''ak''), (''SignatureMethod'', VStr ''HmacSHA256''),
           (''SignatureVersion'', VStr ''2''), (''Timestamp'', VStr ''2020-09-10T12:00:05''),
           (''Signature'', VStr (b64encode (''sk'' @ utf8 (canonical_payload ''GET''
              ''api.huobi.pro'' ''/v1/order/orders''
              [(''AccessKeyId'', VStr ''ak''), (''SignatureMethod'', VStr ''HmacSHA256''),
               (''SignatureVersion'', VStr ''2''),
               (''Timestamp'', VStr ''2020-09-10T12:00:05'')]))))]
          ''Signature'')
        ''/v1/order/orders''
     = Inr (b64encode (''sk'' @ utf8 (canonical_payload ''GET''
            ''api.huobi.pro'' ''/v1/order/orders''
            [(''AccessKeyId'', VStr ''ak''), (''SignatureMethod'', VStr ''HmacSHA256''),
             (''SignatureVersion'', VStr ''2''),
             (''Timestamp'', VStr ''2020-09-10T12:00:05'')])))"
proof -
  let ?pre = "[(''AccessKeyId'', VStr ''ak''), (''SignatureMethod'', VStr ''HmacSHA256''),
         (''SignatureVersion'', VStr ''2''), (''Timestamp'', VStr ''2020-09-10T12:00:05'')]"
  let ?sg = "b64encode (''sk'' @ utf8 (canonical_payload ''GET''
            ''api.huobi.pro'' ''/v1/order/orders'' ?pre))"
  have c: "host sample_client = ''https://api.huobi.pro''"
    "secret_key sample_client = VStr ''sk''" "access_key sample_client = VStr ''ak''"
    by (simp_all add: sample_client_def)
  have u: "resolve_url sample_lib sample_client ''/v1/order/orders''
     = Inr ''https://api.huobi.pro/v1/order/orders''"
    using sample_resolve_url [OF c(1) relative_uri] by simp
  have p0: "[] = (case None :: addr option of None \<Rightarrow> [] | Some a \<Rightarrow> cells sample_heap a)"
    by simp
  have pre: "?pre = dict_update [] (auth_fields sample_client (strftime (utcnow sample_world)))"
    unfolding sample_pre c(3) by (rule refl)
  have sg: "generate_signature sample_lib sample_client ''GET'' ?pre ''/v1/order/orders''
     = Inr ?sg"
    using sample_signature [OF c(1) c(2) relative_uri] by (simp add: utf8_def utf8_char_def)
  have fin: "?pre @ [(''Signature'', VStr ?sg)] = dict_set ?pre ''Signature'' (VStr ?sg)"
    by simp
  have v1: "\<forall>a. (None :: addr option) = Some a
              \<longrightarrow> a < lim sample_heap \<and> (None :: addr option) \<noteq> Some a"
    and v2: "\<forall>b. (None :: addr option) = Some b \<longrightarrow> b < lim sample_heap"
    by simp_all
  have k: "''Signature'' \<notin> set (dict_keys [])"
    by (simp add: dict_keys_def)
  show ?thesis
    using signature_stored_after_signing [OF u p0 pre sg fin v1 v2 k, where body = PNone] u k sg
    by simp
qed

text \<open>
  Claim C3 as stated fails: \<open>generate_signature\<close> signs every entry of the mapping
  it is given. With a Signature entry in the mapping, the signed payload contains it, and
  the result differs from the one for the mapping without the entry.
\<close>

theorem signature_entry_is_signed_counterexample:
  "canonical_payload ''GET'' ''api.huobi.pro'' ''/v1/order/orders''
      [(''Signature'', VStr ''old'')]
     = ''GET'' @ [CHR 10] @ ''api.huobi.pro'' @ [CHR 10] @ ''/v1/order/orders'' @ [CHR 10]
       @ ''Signature=old''
   \<and> canonical_payload ''GET'' ''api.huobi.pro'' ''/v1/order/orders''
      (dict_del [(''Signature'', VStr ''old'')] ''Signature'')
     = ''GET'' @ [CHR 10] @ ''api.huobi.pro'' @ [CHR 10] @ ''/v1/order/orders'' @ [CHR 10]
   \<and> generate_signature sample_lib sample_client ''GET'' [(''Signature'', VStr ''old'')]
        ''/v1/order/orders''
     \<noteq> generate_signature sample_lib sample_client ''GET''
        (dict_del [(''Signature'', VStr ''old'')] ''Signature'') ''/v1/order/orders''"
  by (simp add: dict_del_def signature_eval string_eval sample_eval b64_eval)

subsection \<open>Calls without credentials\<close>

lemma auth_fields_get:
  "dict_get (dict_update d (auth_fields self ts)) ''AccessKeyId'' = Some (access_key self)"
  unfolding auth_fields_update by (simp add: dict_get_set)


lemma sample_response:
  "read_response L (fst (snd (fetch sample_world call))) (snd (snd (fetch sample_world call)))
     = Inr (PDict [(''status'', PStr ''ok'')], PNone)"
  by (simp add: read_response_def sample_world_def)

text \<open>
  Claim C9, as the code has it. \<open>request\<close> does not check the credentials. Without a
  secret key an authenticated call raises before any transport call: the exception is
  \<^verbatim>\<open>AttributeError\<close> once the URL and the host name resolve, and it is raised, not
  returned as the error of a pair. Without an access key alone nothing fails: the call
  is signed and sent, with \<^verbatim>\<open>None\<close> under AccessKeyId.
\<close>

theorem missing_credentials:
  "(secret_key self = VNone \<longrightarrow>
      transport (request L W self h method uri params body headers True) = []
      \<and> isl (returned (request L W self h method uri params body headers True)))
   \<and> (secret_key self = VNone \<and> resolve_url L self uri = Inr url
        \<and> resolve L self uri = Inr x \<longrightarrow>
      returned (request L W self h method uri params body headers True)
        = Inl AttributeError)
   \<and> (access_key self = VNone \<and> resolve_url L self uri = Inr url
        \<and> p0 = (case params of None \<Rightarrow> [] | Some a \<Rightarrow> cells h a)
        \<and> pre = dict_update p0 (auth_fields self (strftime (utcnow W)))
        \<and> generate_signature L self method pre uri = Inr sg
        \<and> final = dict_set pre ''Signature'' (VStr sg)
        \<and> (\<forall>a. params = Some a \<longrightarrow> a < lim h \<and> headers \<noteq> Some a)
        \<and> (\<forall>b. headers = Some b \<longrightarrow> b < lim h) \<longrightarrow>
      map fc_params (transport (request L W self h method uri params body headers True))
        = [Some final]
      \<and> dict_get final ''AccessKeyId'' = Some VNone)"
proof (intro conjI impI)
  let ?R = "request L W self h method uri params body headers True"
  let ?p0 = "case params of None \<Rightarrow> [] | Some a \<Rightarrow> cells h a"
  let ?pre = "dict_update ?p0 (auth_fields self (strftime (utcnow W)))"
  {
    assume ns: "secret_key self = VNone"
    show "transport ?R = []" and "isl (returned ?R)"
    proof -
      have "transport ?R = [] \<and> isl (returned ?R)"
      proof (cases "resolve_url L self uri")
        case (Inl e)
        then show ?thesis by (simp add: request_unresolved)
      next
        case (Inr url')
        have "isl (generate_signature L self method ?pre uri)"
          by (rule no_secret_no_signature [OF ns])
        then obtain e where "generate_signature L self method ?pre uri = Inl e"
          by (cases "generate_signature L self method ?pre uri") simp_all
        then show ?thesis
          by (simp add: request_auth_raised [OF Inr refl refl])
      qed
      then show "transport ?R = []" and "isl (returned ?R)" by simp_all
    qed
  }
  {
    assume a: "secret_key self = VNone \<and> resolve_url L self uri = Inr url
        \<and> resolve L self uri = Inr x"
    then have "generate_signature L self method ?pre uri = Inl AttributeError"
      by (simp add: no_secret_attribute_error)
    with a show "returned ?R = Inl AttributeError"
      by (simp add: request_auth_raised [OF _ refl refl])
  }
  {
    assume a: "access_key self = VNone \<and> resolve_url L self uri = Inr url
        \<and> p0 = (case params of None \<Rightarrow> [] | Some a \<Rightarrow> cells h a)
        \<and> pre = dict_update p0 (auth_fields self (strftime (utcnow W)))
        \<and> generate_signature L self method pre uri = Inr sg
        \<and> final = dict_set pre ''Signature'' (VStr sg)
        \<and> (\<forall>a. params = Some a \<longrightarrow> a < lim h \<and> headers \<noteq> Some a)
        \<and> (\<forall>b. headers = Some b \<longrightarrow> b < lim h)"
    then have f: "resolve_url L self uri = Inr url"
      "p0 = (case params of None \<Rightarrow> [] | Some a \<Rightarrow> cells h a)"
      "pre = dict_update p0 (auth_fields self (strftime (utcnow W)))"
      "generate_signature L self method pre uri = Inr sg"
      "final = dict_set pre ''Signature'' (VStr sg)"
      "\<forall>a. params = Some a \<longrightarrow> a < lim h \<and> headers \<noteq> Some a"
      "\<forall>b. headers = Some b \<longrightarrow> b < lim h"
      by blast+
    show "map fc_params (transport ?R) = [Some final]"
      by (rule request_auth_sent(1) [OF f])
    from a show "dict_get final ''AccessKeyId'' = Some VNone"
      by (simp add: dict_get_set auth_fields_get)
  }
qed


theorem missing_credentials_witness:
  "secret_key (sample_client\<lparr>secret_key := VNone\<rparr>) = VNone
   \<and> resolve_url sample_lib (sample_client\<lparr>secret_key := VNone\<rparr>) ''/v1/order/orders''
       = Inr ''https://api.huobi.pro/v1/order/orders''
   \<and> resolve sample_lib (sample_client\<lparr>secret_key := VNone\<rparr>) ''/v1/order/orders''
       = Inr (''api.huobi.pro'', ''/v1/order/orders'')
   \<and> transport (request sample_lib sample_world (sample_client\<lparr>secret_key := VNone\<rparr>)
         sample_heap ''GET'' ''/v1/order/orders'' None PNone None True) = []
   \<and> returned (request sample_lib sample_world (sample_client\<lparr>secret_key := VNone\<rparr>)
         sample_heap ''GET'' ''/v1/order/orders'' None PNone None True)
       = Inl AttributeError
   \<and> access_key (sample_client\<lparr>access_key := VNone\<rparr>) = VNone
   \<and> map fc_params (transport (request sample_lib sample_world
         (sample_client\<lparr>access_key := VNone\<rparr>) sample_heap ''GET'' ''/v1/order/orders''
         None PNone None True))
       = [Some [(''AccessKeyId'', VNone), (''SignatureMethod'', VStr ''HmacSHA256''),
           (''SignatureVersion'', VStr ''2''), (''Timestamp'', VStr ''2020-09-10T12:00:05''),
           (''Signature'', VStr (b64encode (''sk'' @ utf8 (canonical_payload ''GET''
              ''api.huobi.pro'' ''/v1/order/orders''
              [(''AccessKeyId'', VNone), (''SignatureMethod'', VStr ''HmacSHA256''),
               (''SignatureVersion'', VStr ''2''),
               (''Timestamp'', VStr ''2020-09-10T12:00:05'')]))))]]"
proof -
  let ?c1 = "sample_client\<lparr>secret_key := VNone\<rparr>"
  let ?c2 = "sample_client\<lparr>access_key := VNone\<rparr>"
  let ?pre = "[(''AccessKeyId'', VNone), (''SignatureMethod'', VStr ''HmacSHA256''),
         (''SignatureVersion'', VStr ''2''), (''Timestamp'', VStr ''2020-09-10T12:00:05'')]"
  let ?sg = "b64encode (''sk'' @ utf8 (canonical_payload ''GET''
            ''api.huobi.pro'' ''/v1/order/orders'' ?pre))"
  have c1: "host ?c1 = ''https://api.huobi.pro''" "secret_key ?c1 = VNone"
    by (simp_all add: sample_client_def)
  have c2: "host ?c2 = ''https://api.huobi.pro''" "secret_key ?c2 = VStr ''sk''"
    "access_key ?c2 = VNone"
    by (simp_all add: sample_client_def)
  have u1: "resolve_url sample_lib ?c1 ''/v1/order/orders''
     = Inr ''https://api.huobi.pro/v1/order/orders''"
    using sample_resolve_url [OF c1(1) relative_uri] by simp
  have u2: "resolve_url sample_lib ?c2 ''/v1/order/orders''
     = Inr ''https://api.huobi.pro/v1/order/orders''"
    using sample_resolve_url [OF c2(1) relative_uri] by simp
  have r1: "resolve sample_lib ?c1 ''/v1/order/orders''
       = Inr (''api.huobi.pro'', ''/v1/order/orders'')"
    by (simp add: resolve_def lower_hostname_def string_eval sample_eval)
  have pre: "?pre = dict_update
      (case None :: addr option of None \<Rightarrow> [] | Some a \<Rightarrow> cells sample_heap a)
      (auth_fields ?c2 (strftime (utcnow sample_world)))"
    using sample_pre [of ?c2] c2(3) by simp
  have sg: "generate_signature sample_lib ?c2 ''GET'' ?pre ''/v1/order/orders'' = Inr ?sg"
    using sample_signature [OF c2(1) c2(2) relative_uri] by (simp add: utf8_def utf8_char_def)
  have fin: "?pre @ [(''Signature'', VStr ?sg)] = dict_set ?pre ''Signature'' (VStr ?sg)"
    by simp
  note m1 = missing_credentials [of ?c1 sample_lib sample_world sample_heap "''GET''"
      "''/v1/order/orders''" None PNone None "''https://api.huobi.pro/v1/order/orders''"
      "(''api.huobi.pro'', ''/v1/order/orders'')"]
  note m2 = missing_credentials [of ?c2 sample_lib sample_world sample_heap "''GET''"
      "''/v1/order/orders''" None PNone None "''https://api.huobi.pro/v1/order/orders''"
      _ "[]" ?pre ?sg "?pre @ [(''Signature'', VStr ?sg)]"]
  have a: "transport (request sample_lib sample_world ?c1
         sample_heap ''GET'' ''/v1/order/orders'' None PNone None True) = []"
    and b: "returned (request sample_lib sample_world ?c1
         sample_heap ''GET'' ''/v1/order/orders'' None PNone None True) = Inl AttributeError"
    using m1 c1(2) u1 r1 by blast+
  have c: "map fc_params (transport (request sample_lib sample_world ?c2 sample_heap
         ''GET'' ''/v1/order/orders'' None PNone None True))
       = [Some (?pre @ [(''Signature'', VStr ?sg)])]"
    using m2 c2(3) u2 pre sg fin by simp
  show ?thesis
    using a b c c1(2) c2(3) u1 r1 by simp
qed

text \<open>
  Claim C9 as stated fails: a client without an access key, making an authenticated call,
  reaches the transport and returns the envelope it is given.
\<close>

theorem missing_access_key_is_sent_counterexample:
  "access_key (sample_client\<lparr>access_key := VNone\<rparr>) = VNone
   \<and> map fc_method (transport (request sample_lib sample_world
         (sample_client\<lparr>access_key := VNone\<rparr>) sample_heap ''GET'' ''/v1/order/orders''
         None PNone None True)) = [''GET'']
   \<and> returned (request sample_lib sample_world
         (sample_client\<lparr>access_key := VNone\<rparr>) sample_heap ''GET'' ''/v1/order/orders''
         None PNone None True) = Inr (PDict [(''status'', PStr ''ok'')], PNone)"
proof -
  let ?c2 = "sample_client\<lparr>access_key := VNone\<rparr>"
  let ?pre = "[(''AccessKeyId'', VNone), (''SignatureMethod'', VStr ''HmacSHA256''),
         (''SignatureVersion'', VStr ''2''), (''Timestamp'', VStr ''2020-09-10T12:00:05'')]"
  let ?sg = "b64encode (''sk'' @ utf8 (canonical_payload ''GET''
            ''api.huobi.pro'' ''/v1/order/orders'' ?pre))"
  have c2: "host ?c2 = ''https://api.huobi.pro''" "secret_key ?c2 = VStr ''sk''"
    "access_key ?c2 = VNone"
    by (simp_all add: sample_client_def)
  have u2: "resolve_url sample_lib ?c2 ''/v1/order/orders''
     = Inr (''https://api.huobi.pro'' @ ''/v1/order/orders'')"
    by (rule sample_resolve_url [OF c2(1) relative_uri])
  have p0: "[] = (case None :: addr option of None \<Rightarrow> [] | Some a \<Rightarrow> cells sample_heap a)"
    by simp
  have pre: "?pre = dict_update [] (auth_fields ?c2 (strftime (utcnow sample_world)))"
    using sample_pre [of ?c2] c2(3) by simp
  have sg: "generate_signature sample_lib ?c2 ''GET'' ?pre ''/v1/order/orders'' = Inr ?sg"
    using sample_signature [OF c2(1) c2(2) relative_uri] by (simp add: utf8_def utf8_char_def)
  have v1: "\<forall>a. (None :: addr option) = Some a
              \<longrightarrow> a < lim sample_heap \<and> (None :: addr option) \<noteq> Some a"
    and v2: "\<forall>b. (None :: addr option) = Some b \<longrightarrow> b < lim sample_heap"
    by simp_all
  note sent = request_auth_sent [OF u2 p0 pre sg refl v1 v2, where body = PNone]
  show ?thesis
    using sent(5) c2(3) unfolding sent(4) sample_response by simp
qed

subsection \<open>The mapping of the caller is updated in place\<close>






subsection \<open>The answer of the transport and the method sent\<close>

lemma request_transport_cases:
  obtains (raised) e where
      "transport (request L W self h method uri params body headers auth) = []"
      "returned (request L W self h method uri params body headers auth) = Inl e"
  | (sent) call where
      "transport (request L W self h method uri params body headers auth) = [call]"
      "returned (request L W self h method uri params body headers auth)
         = read_response L (fst (snd (fetch W call))) (snd (snd (fetch W call)))"
proof (cases "resolve_url L self uri")
  case (Inl e)
  then show ?thesis
    using raised by (simp add: request_unresolved)
next
  case (Inr url)
  let ?pre = "dict_update (case params of None \<Rightarrow> [] | Some a \<Rightarrow> cells h a)
                 (auth_fields self (strftime (utcnow W)))"
  show ?thesis
  proof (cases "auth \<and> isl (generate_signature L self method ?pre uri)")
    case True
    then obtain e where e: "generate_signature L self method ?pre uri = Inl e"
      by (cases "generate_signature L self method ?pre uri") simp_all
    from True have auth by simp
    then show ?thesis
      using raised request_auth_raised [OF Inr refl refl e] by simp
  next
    case False
    then obtain sg where sg: "auth \<longrightarrow> generate_signature L self method ?pre uri = Inr sg"
      by (cases "generate_signature L self method ?pre uri") auto
    obtain h1 params1 where hp: "(h1, params1) =
           (if auth
            then (store (fst (or_fresh h params)) (snd (or_fresh h params))
                    (dict_set ?pre ''Signature'' (VStr sg)),
                  Some (snd (or_fresh h params)))
            else (h, params))"
      by (cases auth) simp_all
    show ?thesis
      using sent request_after_auth [OF Inr hp refl sg refl refl refl refl] by simp
  qed
qed

lemma read_response_one_none:
  assumes "read_response L success error = Inr (result, err)"
  shows "(result = PNone) \<noteq> (err = PNone)"
proof (cases "truthy error")
  case True
  then have "error \<noteq> PNone" by (cases error) simp_all
  with True assms show ?thesis by (simp add: read_response_def)
next
  case False
  with assms show ?thesis
    by (auto simp: read_response_def split: sum.splits pyobj.splits if_splits)
qed

text \<open>
  Claim C4, as the code has it. For a call that reached the transport, with the triple the
  transport answered: an error that is true in Python's sense is returned as
  \<^verbatim>\<open>(None, error)\<close>. Otherwise the answer is taken as it is when it is a \<^verbatim>\<open>dict\<close> and
  decoded by \<^verbatim>\<open>json.loads\<close> when not. When that gives a \<^verbatim>\<open>dict\<close>, it is returned as
  \<^verbatim>\<open>(None, envelope)\<close> when its status is absent or not \<^verbatim>\<open>"ok"\<close>, and as
  \<^verbatim>\<open>(envelope, None)\<close> when it is. When the decoder raises, the exception goes to the
  caller; when the decoder gives something other than a \<^verbatim>\<open>dict\<close>, \<^verbatim>\<open>result.get\<close>
  raises \<^verbatim>\<open>AttributeError\<close>: in both cases no pair is returned. In every pair that is
  returned exactly one component is \<^verbatim>\<open>None\<close>.
\<close>

theorem response_outcome:
  assumes "transport (request L W self h method uri params body headers auth) = [call]"
    and "fetch W call = (code, success, error)"
    and "parsed = (case success of PDict d \<Rightarrow> Inr success | _ \<Rightarrow> json_loads L success)"
    and "R = returned (request L W self h method uri params body headers auth)"
  shows "(truthy error \<longrightarrow> R = Inr (PNone, error))
     \<and> (\<not> truthy error \<and> parsed = Inr (PDict env)
          \<and> map_of env ''status'' \<noteq> Some (PStr ''ok'') \<longrightarrow> R = Inr (PNone, PDict env))
     \<and> (\<not> truthy error \<and> parsed = Inr (PDict env)
          \<and> map_of env ''status'' = Some (PStr ''ok'') \<longrightarrow> R = Inr (PDict env, PNone))
     \<and> (\<not> truthy error \<and> parsed = Inl e \<longrightarrow> R = Inl e)
     \<and> (\<not> truthy error \<and> parsed = Inr v \<and> \<not> is_dict v \<longrightarrow> R = Inl AttributeError)
     \<and> (R = Inr (result, err) \<longrightarrow> (result = PNone) \<noteq> (err = PNone))"
proof -
  have R: "R = read_response L success error"
  proof (cases rule: request_transport_cases
      [of L W self h "method" uri params body headers auth])
    case (raised e)
    with assms(1) show ?thesis by simp
  next
    case (sent call')
    with assms(1) have "call' = call" by simp
    with sent(2) assms(2) show ?thesis unfolding assms(4) by simp
  qed
  have 1: "truthy error \<longrightarrow> R = Inr (PNone, error)"
    unfolding R by (simp add: read_response_def)
  have 2: "\<not> truthy error \<and> parsed = Inr (PDict env)
          \<and> map_of env ''status'' \<noteq> Some (PStr ''ok'') \<longrightarrow> R = Inr (PNone, PDict env)"
    unfolding R assms(3) by (simp add: read_response_def)
  have 3: "\<not> truthy error \<and> parsed = Inr (PDict env)
          \<and> map_of env ''status'' = Some (PStr ''ok'') \<longrightarrow> R = Inr (PDict env, PNone)"
    unfolding R assms(3) by (simp add: read_response_def)
  have 4: "R = Inr (result, err) \<longrightarrow> (result = PNone) \<noteq> (err = PNone)"
    unfolding R using read_response_one_none by blast
  have 5: "\<not> truthy error \<and> parsed = Inl e \<longrightarrow> R = Inl e"
    unfolding R assms(3) by (simp add: read_response_def)
  have 6: "\<not> truthy error \<and> parsed = Inr v \<and> \<not> is_dict v \<longrightarrow> R = Inl AttributeError"
    unfolding R assms(3) by (cases v) (simp_all add: read_response_def)
  show ?thesis
    using 1 2 3 4 5 6 by blast
qed


lemma request_plain_sent:
  assumes "resolve_url L self uri = Inr url"
  shows "transport (request L W self h method uri params body headers False)
       = [hd (transport (request L W self h method uri params body headers False))]"
    and "map fc_method (transport (request L W self h method uri params body headers False))
       = [if method = ''GET'' then ''GET'' else ''POST'']"
    and "map fc_url (transport (request L W self h method uri params body headers False))
       = [url]"
    and "returned (request L W self h method uri params body headers False)
       = read_response L
           (fst (snd (fetch W (hd (transport
              (request L W self h method uri params body headers False))))))
           (snd (snd (fetch W (hd (transport
              (request L W self h method uri params body headers False))))))"
proof -
  have pre: "([] :: dict) = dict_update (case params of None \<Rightarrow> [] | Some a \<Rightarrow> cells h a)
                 (auth_fields self (strftime (utcnow W)))" if False
    using that by simp
  have eq: "(h, params) =
           (if False
            then (store (fst (or_fresh h params)) (snd (or_fresh h params))
                    (dict_set pre ''Signature'' (VStr sg)),
                  Some (snd (or_fresh h params)))
            else (h, params))" for pre sg
    by simp
  have sg: "False \<longrightarrow> generate_signature L self method pre uri = Inr sg" for pre sg
    by simp
  note R = request_after_auth [OF assms eq refl sg refl refl refl refl,
      where W = W and body = body]
  show "transport (request L W self h method uri params body headers False)
       = [hd (transport (request L W self h method uri params body headers False))]"
    unfolding R by simp
  show "map fc_method (transport (request L W self h method uri params body headers False))
       = [if method = ''GET'' then ''GET'' else ''POST'']"
    unfolding R by (simp add: sent_call_def)
  show "map fc_url (transport (request L W self h method uri params body headers False))
       = [url]"
    unfolding R by (simp add: sent_call_def)
  show "returned (request L W self h method uri params body headers False)
       = read_response L
           (fst (snd (fetch W (hd (transport
              (request L W self h method uri params body headers False))))))
           (snd (snd (fetch W (hd (transport
              (request L W self h method uri params body headers False))))))"
    unfolding R by simp
qed


lemma relative_depth: "\<not> is_absolute ''/market/depth''"
  by (simp add: is_absolute_def startswith_def)

theorem response_outcome_witness:
  "truthy (PExc ''timeout'')
   \<and> returned (request sample_lib
         (sample_world\<lparr>fetch := (\<lambda>c. (PNone, PNone, PExc ''timeout''))\<rparr>)
         sample_client sample_heap ''GET'' ''/market/depth'' (Some 0) PNone None False)
       = Inr (PNone, PExc ''timeout'')
   \<and> \<not> truthy PNone
   \<and> json_loads sample_lib (PStr ''{}'') = Inr (PDict [])
   \<and> map_of [] ''status'' \<noteq> Some (PStr ''ok'')
   \<and> returned (request sample_lib
         (sample_world\<lparr>fetch := (\<lambda>c. (PInt 200, PStr ''{}'', PNone))\<rparr>)
         sample_client sample_heap ''GET'' ''/market/depth'' (Some 0) PNone None False)
       = Inr (PNone, PDict [])
   \<and> map_of [(''status'', PStr ''ok'')] ''status'' = Some (PStr ''ok'')
   \<and> returned (request sample_lib sample_world
         sample_client sample_heap ''GET'' ''/market/depth'' (Some 0) PNone None False)
       = Inr (PDict [(''status'', PStr ''ok'')], PNone)
   \<and> (PDict [(''status'', PStr ''ok'')] = PNone) \<noteq> (PNone = PNone)
   \<and> json_loads sample_lib (PStr ''maintenance'') = Inl JSONDecodeError
   \<and> returned (request sample_lib
         (sample_world\<lparr>fetch := (\<lambda>c. (PInt 200, PStr ''maintenance'', PNone))\<rparr>)
         sample_client sample_heap ''GET'' ''/market/depth'' (Some 0) PNone None False)
       = Inl JSONDecodeError
   \<and> \<not> is_dict (PList [])
   \<and> returned (request (sample_lib\<lparr>json_loads := (\<lambda>x. Inr (PList []))\<rparr>)
         (sample_world\<lparr>fetch := (\<lambda>c. (PInt 200, PStr ''[]'', PNone))\<rparr>)
         sample_client sample_heap ''GET'' ''/market/depth'' (Some 0) PNone None False)
       = Inl AttributeError"
proof -
  let ?W1 = "sample_world\<lparr>fetch := (\<lambda>c. (PNone, PNone, PExc ''timeout''))\<rparr>"
  let ?W2 = "sample_world\<lparr>fetch := (\<lambda>c. (PInt 200, PStr ''{}'', PNone))\<rparr>"
  let ?W4 = "sample_world\<lparr>fetch := (\<lambda>c. (PInt 200, PStr ''maintenance'', PNone))\<rparr>"
  let ?W5 = "sample_world\<lparr>fetch := (\<lambda>c. (PInt 200, PStr ''[]'', PNone))\<rparr>"
  let ?L5 = "sample_lib\<lparr>json_loads := (\<lambda>x. Inr (PList []))\<rparr>"
  have c: "host sample_client = ''https://api.huobi.pro''"
    by (simp add: sample_client_def)
  note u = sample_resolve_url [OF c relative_depth]
  have u5: "resolve_url ?L5 sample_client ''/market/depth''
      = Inr (''https://api.huobi.pro'' @ ''/market/depth'')"
    using relative_depth
    by (simp add: resolve_url_def is_absolute_def sample_lib_def sample_client_def)
  note t4 = request_plain_sent(1) [OF u,
      of ?W4 sample_heap "''GET''" "Some 0" PNone None]
  note t5 = request_plain_sent(1) [OF u5,
      of ?W5 sample_heap "''GET''" "Some 0" PNone None]
  have f4: "fetch ?W4 call = (PInt 200, PStr ''maintenance'', PNone)" for call
    by simp
  have f5: "fetch ?W5 call = (PInt 200, PStr ''[]'', PNone)" for call
    by simp
  have j4: "json_loads sample_lib (PStr ''maintenance'') = Inl JSONDecodeError"
    by (simp add: sample_lib_def sample_json_loads_def)
  have p4: "Inl JSONDecodeError = (case PStr ''maintenance'' of
                  PDict d \<Rightarrow> Inr (PStr ''maintenance'')
                | _ \<Rightarrow> json_loads sample_lib (PStr ''maintenance''))"
    by (simp add: j4)
  have p5: "Inr (PList []) = (case PStr ''[]'' of PDict d \<Rightarrow> Inr (PStr ''[]'')
                | _ \<Rightarrow> json_loads ?L5 (PStr ''[]''))"
    by simp
  note t1 = request_plain_sent(1) [OF u,
      of ?W1 sample_heap "''GET''" "Some 0" PNone None]
  note t2 = request_plain_sent(1) [OF u,
      of ?W2 sample_heap "''GET''" "Some 0" PNone None]
  note t3 = request_plain_sent(1) [OF u,
      of sample_world sample_heap "''GET''" "Some 0" PNone None]
  have f1: "fetch ?W1 call = (PNone, PNone, PExc ''timeout'')" for call
    by simp
  have f2: "fetch ?W2 call = (PInt 200, PStr ''{}'', PNone)" for call
    by simp
  have f3: "fetch sample_world call = (PInt 200, PDict [(''status'', PStr ''ok'')], PNone)"
    for call
    by (simp add: sample_world_def)
  have j: "json_loads sample_lib (PStr ''{}'') = Inr (PDict [])"
    by (simp add: sample_lib_def sample_json_loads_def)
  have p2: "Inr (PDict []) = (case PStr ''{}'' of PDict d \<Rightarrow> Inr (PStr ''{}'')
                | _ \<Rightarrow> json_loads sample_lib (PStr ''{}''))"
    by (simp add: j)
  have p3: "Inr (PDict [(''status'', PStr ''ok'')])
      = (case PDict [(''status'', PStr ''ok'')] of
           PDict d \<Rightarrow> Inr (PDict [(''status'', PStr ''ok'')])
         | _ \<Rightarrow> json_loads sample_lib (PDict [(''status'', PStr ''ok'')]))"
    by simp
  note w1 = response_outcome [OF t1 f1 refl refl]
  note w2 = response_outcome [OF t2 f2 p2 refl, where env = "[]"]
  note w3 = response_outcome [OF t3 f3 p3 refl, where env = "[(''status'', PStr ''ok'')]"
      and result = "PDict [(''status'', PStr ''ok'')]" and err = PNone]
  have a: "returned (request sample_lib ?W1
         sample_client sample_heap ''GET'' ''/market/depth'' (Some 0) PNone None False)
       = Inr (PNone, PExc ''timeout'')"
    using w1 by simp
  have b: "returned (request sample_lib ?W2
         sample_client sample_heap ''GET'' ''/market/depth'' (Some 0) PNone None False)
       = Inr (PNone, PDict [])"
    using w2 by simp
  have d: "returned (request sample_lib sample_world
         sample_client sample_heap ''GET'' ''/market/depth'' (Some 0) PNone None False)
       = Inr (PDict [(''status'', PStr ''ok'')], PNone)"
    "(PDict [(''status'', PStr ''ok'')] = PNone) \<noteq> (PNone = PNone)"
    using w3 by simp_all
  note w4 = response_outcome [OF t4 f4 p4 refl, where e = JSONDecodeError]
  note w5 = response_outcome [OF t5 f5 p5 refl, where v = "PList []"]
  have e: "returned (request sample_lib ?W4
         sample_client sample_heap ''GET'' ''/market/depth'' (Some 0) PNone None False)
       = Inl JSONDecodeError"
    using w4 by simp
  have g: "returned (request ?L5 ?W5
         sample_client sample_heap ''GET'' ''/market/depth'' (Some 0) PNone None False)
       = Inl AttributeError"
    using w5 by simp
  show ?thesis
    using a b d j e g j4 by simp
qed

text \<open>
  Claim C4 as stated fails where the transport succeeds with a body that is not a JSON
  object: for a text that does not decode \<^verbatim>\<open>json.loads\<close> raises, as it does for a
  list, and \<open>request\<close> returns no pair.
\<close>

theorem body_not_json_raises_counterexample:
  "\<not> truthy PNone
   \<and> returned (request sample_lib
         (sample_world\<lparr>fetch := (\<lambda>c. (PInt 200, PStr ''maintenance'', PNone))\<rparr>)
         sample_client sample_heap ''GET'' ''/market/depth'' (Some 0) PNone None False)
       = Inl JSONDecodeError
   \<and> returned (request sample_lib
         (sample_world\<lparr>fetch := (\<lambda>c. (PInt 200, PList [], PNone))\<rparr>)
         sample_client sample_heap ''GET'' ''/market/depth'' (Some 0) PNone None False)
       = Inl TypeError"
proof -
  have c: "host sample_client = ''https://api.huobi.pro''"
    by (simp add: sample_client_def)
  note u = sample_resolve_url [OF c relative_depth]
  show ?thesis
    unfolding request_plain_sent(4) [OF u]
    by (simp add: read_response_def sample_lib_def sample_json_loads_def)
qed

text \<open>
  Claim C5 at the method \<^verbatim>\<open>PUT\<close>: the transport is called with \<^verbatim>\<open>POST\<close>, while
  the signature in the query is computed with \<^verbatim>\<open>PUT\<close>; \<^verbatim>\<open>DELETE\<close> goes out as
  \<^verbatim>\<open>POST\<close> as well.
\<close>

theorem put_sent_as_post:
  "map fc_method (transport (request sample_lib sample_world sample_client sample_heap
      ''PUT'' ''/v1/order/orders'' None (PDict []) None True)) = [''POST'']
   \<and> map fc_params (transport (request sample_lib sample_world sample_client sample_heap
      ''PUT'' ''/v1/order/orders'' None (PDict []) None True))
     = [Some [(''AccessKeyId'', VStr ''ak''), (''SignatureMethod'', VStr ''HmacSHA256''),
         (''SignatureVersion'', VStr ''2''), (''Timestamp'', VStr ''2020-09-10T12:00:05''),
         (''Signature'', VStr (b64encode (''sk'' @ utf8 (canonical_payload ''PUT''
            ''api.huobi.pro'' ''/v1/order/orders''
            [(''AccessKeyId'', VStr ''ak''), (''SignatureMethod'', VStr ''HmacSHA256''),
             (''SignatureVersion'', VStr ''2''),
             (''Timestamp'', VStr ''2020-09-10T12:00:05'')]))))]]
   \<and> map fc_method (transport (request sample_lib sample_world sample_client sample_heap
      ''DELETE'' ''/v1/order/orders'' None (PDict []) None False)) = [''POST'']"
proof -
  let ?pre = "[(''AccessKeyId'', VStr ''ak''), (''SignatureMethod'', VStr ''HmacSHA256''),
         (''SignatureVersion'', VStr ''2''), (''Timestamp'', VStr ''2020-09-10T12:00:05'')]"
  let ?sg = "b64encode (''sk'' @ utf8 (canonical_payload ''PUT''
            ''api.huobi.pro'' ''/v1/order/orders'' ?pre))"
  have c: "host sample_client = ''https://api.huobi.pro''"
    "secret_key sample_client = VStr ''sk''" "access_key sample_client = VStr ''ak''"
    by (simp_all add: sample_client_def)
  note u = sample_resolve_url [OF c(1) relative_uri]
  have p0: "[] = (case None :: addr option of None \<Rightarrow> [] | Some a \<Rightarrow> cells sample_heap a)"
    by simp
  have pre: "?pre = dict_update [] (auth_fields sample_client (strftime (utcnow sample_world)))"
    unfolding sample_pre c(3) by (rule refl)
  have sg: "generate_signature sample_lib sample_client ''PUT'' ?pre ''/v1/order/orders''
     = Inr ?sg"
    using sample_signature [OF c(1) c(2) relative_uri] by (simp add: utf8_def utf8_char_def)
  have v1: "\<forall>a. (None :: addr option) = Some a
              \<longrightarrow> a < lim sample_heap \<and> (None :: addr option) \<noteq> Some a"
    and v2: "\<forall>b. (None :: addr option) = Some b \<longrightarrow> b < lim sample_heap"
    by simp_all
  note sent = request_auth_sent [OF u p0 pre sg refl v1 v2, where body = "PDict []"]
  note plain = request_plain_sent(2) [OF u,
      of sample_world sample_heap "''DELETE''" None "PDict []" None]
  show ?thesis
    using sent(1) sent(5) plain by simp
qed

subsection \<open>Absolute and relative request paths\<close>

lemma strip_host_prefix:
  assumes "scheme = ''http://'' \<or> scheme = ''https://''" and "CHR ''/'' \<notin> set auth"
  shows "strip_host (scheme @ auth @ ''/'' @ path) = ''/'' @ path"
proof -
  have sp: "split_on CHR ''/'' (auth @ CHR ''/'' # path) = auth # split_on CHR ''/'' path"
    by (rule split_on_prefix [OF assms(2)])
  obtain p ps where pp: "split_on CHR ''/'' path = p # ps"
    using split_on_nonempty [of "CHR ''/''" path] by (cases "split_on CHR ''/'' path") auto
  have j: "join ''/'' (p # ps) = path"
    using join_split_on [of "CHR ''/''" path] unfolding pp .
  from assms(1) show ?thesis
  proof
    assume "scheme = ''http://''"
    then show ?thesis
      by (simp add: strip_host_def sp pp j)
  next
    assume "scheme = ''https://''"
    then show ?thesis
      by (simp add: strip_host_def sp pp j)
  qed
qed

lemma spec_path_only_prefix:
  assumes "scheme = ''http://'' \<or> scheme = ''https://''"
    and "CHR ''/'' \<notin> set auth" and "CHR ''?'' \<notin> set auth" and "CHR ''#'' \<notin> set auth"
    and "CHR ''?'' \<notin> set path" and "CHR ''#'' \<notin> set path"
  shows "spec_path_only (scheme @ auth @ ''/'' @ path) = ''/'' @ path"
proof -
  have d: "dropWhile (\<lambda>c. c \<notin> set ''/?#'') (auth @ ''/'' @ path) = ''/'' @ path"
    using assms(2-4) by (auto simp: dropWhile_append3)
  have t: "takeWhile (\<lambda>c. c \<notin> set ''?#'') (''/'' @ path) = ''/'' @ path"
    using assms(5,6) by (auto simp: takeWhile_eq_all_conv)
  from assms(1) show ?thesis
  proof
    assume "scheme = ''http://''"
    then show ?thesis
      using d t by (simp add: spec_path_only_def startswith_def)
  next
    assume "scheme = ''https://''"
    then show ?thesis
      using d t by (simp add: spec_path_only_def startswith_def)
  qed
qed

text \<open>
  Claim C6, as the code has it. An absolute URL is the resolved URL as it stands, and is
  signed with its host name in lower case and with the slash and all that follows the third
  slash of the URL; for a URL \<^verbatim>\<open>scheme://authority/rest\<close> that is \<^verbatim>\<open>/rest\<close>, which is the
  path-only component when neither authority nor rest holds a question mark or a hash. A
  relative path is joined with the configured host for the URL, and signed with the host
  name of the configured host, in lower case, and the path as given.
\<close>

theorem url_and_host_resolution:
  "(is_absolute uri \<longrightarrow> resolve_url L self uri = Inr uri)
   \<and> (is_absolute uri \<and> urlparse_hostname L uri = Inr (Some hn)
        \<and> secret_key self = VStr key \<longrightarrow>
      generate_signature L self method params uri
        = Inr (b64encode (hmac_sha256 L (utf8 key)
            (utf8 (canonical_payload method (lower hn) (strip_host uri) params)))))
   \<and> ((scheme = ''http://'' \<or> scheme = ''https://'') \<and> CHR ''/'' \<notin> set auth \<longrightarrow>
      strip_host (scheme @ auth @ ''/'' @ path) = ''/'' @ path)
   \<and> ((scheme = ''http://'' \<or> scheme = ''https://'') \<and> CHR ''/'' \<notin> set auth
        \<and> CHR ''?'' \<notin> set auth \<and> CHR ''#'' \<notin> set auth
        \<and> CHR ''?'' \<notin> set path \<and> CHR ''#'' \<notin> set path \<longrightarrow>
      spec_path_only (scheme @ auth @ ''/'' @ path) = ''/'' @ path)
   \<and> (\<not> is_absolute uri \<longrightarrow> resolve_url L self uri = urljoin L (host self) uri)
   \<and> (\<not> is_absolute uri \<and> urlparse_hostname L (host self) = Inr (Some hn)
        \<and> secret_key self = VStr key \<longrightarrow>
      generate_signature L self method params uri
        = Inr (b64encode (hmac_sha256 L (utf8 key)
            (utf8 (canonical_payload method (lower hn) uri params)))))"
proof (intro conjI impI)
  show "resolve_url L self uri = Inr uri" if "is_absolute uri"
    using that by (simp add: resolve_url_def is_absolute_def)
  show "resolve_url L self uri = urljoin L (host self) uri" if "\<not> is_absolute uri"
    using that by (simp add: resolve_url_def is_absolute_def)
  show "generate_signature L self method params uri
        = Inr (b64encode (hmac_sha256 L (utf8 key)
            (utf8 (canonical_payload method (lower hn) (strip_host uri) params))))"
    if "is_absolute uri \<and> urlparse_hostname L uri = Inr (Some hn)
        \<and> secret_key self = VStr key"
  proof -
    have "resolve L self uri = Inr (lower hn, strip_host uri)"
      using that by (simp add: resolve_def lower_hostname_def)
    then show ?thesis
      using that by (simp add: generate_signature_resolved)
  qed
  show "generate_signature L self method params uri
        = Inr (b64encode (hmac_sha256 L (utf8 key)
            (utf8 (canonical_payload method (lower hn) uri params))))"
    if "\<not> is_absolute uri \<and> urlparse_hostname L (host self) = Inr (Some hn)
        \<and> secret_key self = VStr key"
  proof -
    have "resolve L self uri = Inr (lower hn, uri)"
      using that by (simp add: resolve_def lower_hostname_def)
    then show ?thesis
      using that by (simp add: generate_signature_resolved)
  qed
  show "strip_host (scheme @ auth @ ''/'' @ path) = ''/'' @ path"
    if "(scheme = ''http://'' \<or> scheme = ''https://'') \<and> CHR ''/'' \<notin> set auth"
    using that by (intro strip_host_prefix) blast+
  show "spec_path_only (scheme @ auth @ ''/'' @ path) = ''/'' @ path"
    if "(scheme = ''http://'' \<or> scheme = ''https://'') \<and> CHR ''/'' \<notin> set auth
        \<and> CHR ''?'' \<notin> set auth \<and> CHR ''#'' \<notin> set auth
        \<and> CHR ''?'' \<notin> set path \<and> CHR ''#'' \<notin> set path"
    using that by (intro spec_path_only_prefix) blast+
qed

text \<open>
  Claim C6 as stated fails on an absolute URL with a query, whose query stays in the path
  that is signed, and on one without a path, which is signed with a slash.
\<close>

theorem query_kept_in_signed_path_counterexample:
  "is_absolute ''https://api.example.com/v1/x?a=1''
   \<and> resolve sample_lib sample_client ''https://api.example.com/v1/x?a=1''
       = Inr (''api.example.com'', ''/v1/x?a=1'')
   \<and> spec_path_only ''https://api.example.com/v1/x?a=1'' = ''/v1/x''
   \<and> is_absolute ''https://api.example.com''
   \<and> resolve sample_lib sample_client ''https://api.example.com''
       = Inr (''api.example.com'', ''/'')
   \<and> spec_path_only ''https://api.example.com'' = []"
  by (simp add: resolve_def lower_hostname_def spec_path_only_def string_eval sample_eval)


theorem url_and_host_resolution_witness:
  "is_absolute ''https://API.example.com/v1/x''
   \<and> urlparse_hostname sample_lib ''https://API.example.com/v1/x''
       = Inr (Some ''api.example.com'')
   \<and> resolve_url sample_lib sample_client ''https://API.example.com/v1/x''
       = Inr ''https://API.example.com/v1/x''
   \<and> generate_signature sample_lib sample_client ''GET'' [] ''https://API.example.com/v1/x''
       = Inr (b64encode (''sk'' @ utf8 (canonical_payload ''GET'' ''api.example.com''
           ''/v1/x'' [])))
   \<and> spec_path_only ''https://API.example.com/v1/x'' = ''/v1/x''
   \<and> \<not> is_absolute ''/v1/order/orders''
   \<and> urlparse_hostname sample_lib (host sample_client) = Inr (Some ''api.huobi.pro'')
   \<and> resolve_url sample_lib sample_client ''/v1/order/orders''
       = Inr ''https://api.huobi.pro/v1/order/orders''
   \<and> generate_signature sample_lib sample_client ''GET'' [] ''/v1/order/orders''
       = Inr (b64encode (''sk'' @ utf8 (canonical_payload ''GET'' ''api.huobi.pro''
           ''/v1/order/orders'' [])))"
proof -
  let ?abs = "''https://API.example.com/v1/x''"
  have ia: "is_absolute ?abs"
    by (simp add: is_absolute_def startswith_def)
  have ha: "urlparse_hostname sample_lib ?abs = Inr (Some ''api.example.com'')"
    by (simp add: sample_lib_def sample_hostname_def string_eval)
  have hr: "urlparse_hostname sample_lib (host sample_client) = Inr (Some ''api.huobi.pro'')"
    by (simp add: sample_lib_def sample_client_def sample_hostname_def string_eval)
  have k: "secret_key sample_client = VStr ''sk''"
    by (simp add: sample_client_def)
  have sch: "''https://'' = ''http://'' \<or> ''https://'' = ''https://''"
    and au: "CHR ''/'' \<notin> set ''API.example.com''" "CHR ''?'' \<notin> set ''API.example.com''"
      "CHR ''#'' \<notin> set ''API.example.com''"
    and pa: "CHR ''?'' \<notin> set ''v1/x''" "CHR ''#'' \<notin> set ''v1/x''"
    by simp_all
  have low: "lower ''api.example.com'' = ''api.example.com''"
    "lower ''api.huobi.pro'' = ''api.huobi.pro''"
    by (simp_all add: string_eval)
  have uj: "urljoin sample_lib (host sample_client) ''/v1/order/orders''
      = Inr ''https://api.huobi.pro/v1/order/orders''"
    by (simp add: sample_lib_def sample_client_def)
  have hm: "hmac_sha256 sample_lib (utf8 ''sk'') m = ''sk'' @ m" for m
    by (simp add: sample_lib_def utf8_def utf8_char_def)
  note wa = url_and_host_resolution [of ?abs sample_lib sample_client "''api.example.com''"
      "''sk''" "''GET''" "[]" "''https://''" "''API.example.com''" "''v1/x''"]
  note wr = url_and_host_resolution [of "''/v1/order/orders''" sample_lib sample_client
      "''api.huobi.pro''" "''sk''" "''GET''" "[]"]
  have a1: "resolve_url sample_lib sample_client ?abs = Inr ?abs"
    using wa ia by blast
  have a2: "generate_signature sample_lib sample_client ''GET'' [] ?abs
       = Inr (b64encode (hmac_sha256 sample_lib (utf8 ''sk'')
            (utf8 (canonical_payload ''GET'' (lower ''api.example.com'')
               (strip_host ?abs) []))))"
    using wa ia ha k by blast
  have a3: "strip_host (''https://'' @ ''API.example.com'' @ ''/'' @ ''v1/x'')
      = ''/'' @ ''v1/x''"
    using wa sch au(1) by blast
  have a4: "spec_path_only (''https://'' @ ''API.example.com'' @ ''/'' @ ''v1/x'')
      = ''/'' @ ''v1/x''"
    using wa sch au pa by blast
  have r1: "resolve_url sample_lib sample_client ''/v1/order/orders''
      = urljoin sample_lib (host sample_client) ''/v1/order/orders''"
    using wr relative_uri by blast
  have r2: "generate_signature sample_lib sample_client ''GET'' [] ''/v1/order/orders''
       = Inr (b64encode (hmac_sha256 sample_lib (utf8 ''sk'')
            (utf8 (canonical_payload ''GET'' (lower ''api.huobi.pro'')
               ''/v1/order/orders'' []))))"
    using wr relative_uri hr k by blast
  have a3': "strip_host ?abs = ''/v1/x''" using a3 by simp
  have a4': "spec_path_only ?abs = ''/v1/x''" using a4 by simp
  show ?thesis
    unfolding a1 a2 r1 r2 a3' a4' low hm uj
    using ia ha hr relative_uri by simp
qed

end
